theory Spec2Isabelle
  imports Main "HOL-Library.AList"
begin

section \<open>JavaScript strings and values\<close>

text \<open>
  Strings are lists of code units. Only the string operations the extraction engine calls
  are modelled: \<^verbatim>\<open>startsWith\<close>, \<^verbatim>\<open>includes\<close>, \<^verbatim>\<open>slice(0, n)\<close> (which is \<open>take n\<close>),
  \<^verbatim>\<open>toLowerCase\<close> and \<^verbatim>\<open>trim\<close> on the ASCII range, \<^verbatim>\<open>join\<close>,
  \<^verbatim>\<open>split(/\s+/).filter(Boolean)\<close> and the decimal printing of an array index or length.
\<close>

definition startsWith :: "string \<Rightarrow> string \<Rightarrow> bool" where
  "startsWith s p = (take (length p) s = p)"

fun js_includes :: "string \<Rightarrow> string \<Rightarrow> bool" where
  "js_includes [] p = (p = [])"
| "js_includes (c # cs) p = (startsWith (c # cs) p \<or> js_includes cs p)"

definition upperLetters :: string where
  "upperLetters = ''ABCDEFGHIJKLMNOPQRSTUVWXYZ''"

definition lowerLetters :: string where
  "lowerLetters = ''abcdefghijklmnopqrstuvwxyz''"

definition lowerChar :: "char \<Rightarrow> char" where
  "lowerChar c = (case map_of (zip upperLetters lowerLetters) c of Some l \<Rightarrow> l | None \<Rightarrow> c)"

definition toLowerCase :: "string \<Rightarrow> string" where
  "toLowerCase s = map lowerChar s"

definition isSpace :: "char \<Rightarrow> bool" where
  "isSpace c = (c \<in> set [CHR 0x09, CHR 0x0A, CHR 0x0B, CHR 0x0C, CHR 0x0D, CHR 0x20, CHR 0xA0])"

definition trim :: "string \<Rightarrow> string" where
  "trim s = rev (dropWhile isSpace (rev (dropWhile isSpace s)))"

text \<open>\<^verbatim>\<open>s.split(/\s+/).filter(Boolean)\<close>: the maximal runs of non-blank characters, in order.
  The second argument is the run being read.\<close>

fun splitBlank :: "string \<Rightarrow> string \<Rightarrow> string list" where
  "splitBlank [] w = (if w = [] then [] else [w])"
| "splitBlank (c # cs) w =
     (if isSpace c then (if w = [] then splitBlank cs [] else w # splitBlank cs [])
      else splitBlank cs (w @ [c]))"

fun join :: "string \<Rightarrow> string list \<Rightarrow> string" where
  "join sep [] = []"
| "join sep [x] = x"
| "join sep (x # y # ys) = x @ sep @ join sep (y # ys)"

definition digitChar :: "nat \<Rightarrow> char" where
  "digitChar n = ''0123456789'' ! n"

fun show_nat :: "nat \<Rightarrow> string" where
  "show_nat n = (if n < 10 then [digitChar n] else show_nat (n div 10) @ [digitChar (n mod 10)])"

declare show_nat.simps [simp del]

definition show_int :: "int \<Rightarrow> string" where
  "show_int i = (if i < 0 then ''-'' @ show_nat (nat (- i)) else show_nat (nat i))"

text \<open>\<^verbatim>\<open>xs.indexOf(x)\<close>: the first position of \<open>x\<close>, or \<open>-1\<close>.\<close>

fun indexOf :: "'a list \<Rightarrow> 'a \<Rightarrow> int" where
  "indexOf [] x = - 1"
| "indexOf (y # ys) x = (if y = x then 0 else (let i = indexOf ys x in if i < 0 then - 1 else i + 1))"

text \<open>A property that holds a string or is missing: \<^verbatim>\<open>a || b\<close> and \<^verbatim>\<open>if (a)\<close> take the
  missing value and the empty string as false.\<close>

definition truthy :: "string option \<Rightarrow> bool" where
  "truthy a = (case a of None \<Rightarrow> False | Some s \<Rightarrow> s \<noteq> [])"

text \<open>\<^verbatim>\<open>a || undefined\<close> and \<^verbatim>\<open>a || null\<close> on a string and on a number.\<close>

definition strOrUndefined :: "string option \<Rightarrow> string option" where
  "strOrUndefined a = (if truthy a then a else None)"

definition numOrUndefined :: "int option \<Rightarrow> int option" where
  "numOrUndefined a = (case a of None \<Rightarrow> None | Some n \<Rightarrow> if n = 0 then None else Some n)"

text \<open>The values a props record can hold. Numbers are carried as they are (the sanitizer
  never computes with them); a function value has no content the engine reads.\<close>

datatype jsval =
    JUndefined
  | JNull
  | JBool bool
  | JNum int
  | JStr string
  | JFunction
  | JArray "jsval list"
  | JObject "(string \<times> jsval) list"

fun typeof :: "jsval \<Rightarrow> string" where
  "typeof JUndefined = ''undefined''"
| "typeof JNull = ''object''"
| "typeof (JBool b) = ''boolean''"
| "typeof (JNum n) = ''number''"
| "typeof (JStr s) = ''string''"
| "typeof JFunction = ''function''"
| "typeof (JArray xs) = ''object''"
| "typeof (JObject kvs) = ''object''"

fun isArray :: "jsval \<Rightarrow> bool" where
  "isArray (JArray xs) = True"
| "isArray v = False"

text \<open>\<^verbatim>\<open>value.length\<close>, read only where \<open>value\<close> is an array or a string.\<close>

fun js_length :: "jsval \<Rightarrow> nat" where
  "js_length (JArray xs) = length xs"
| "js_length (JStr s) = length s"
| "js_length v = 0"

fun js_slice :: "nat \<Rightarrow> jsval \<Rightarrow> string" where
  "js_slice n (JStr s) = take n s"
| "js_slice n v = []"

section \<open>The internal instance tree\<close>

text \<open>\<^verbatim>\<open>fiber._debugSource\<close> as the runtime left it, and the record \<^verbatim>\<open>getDebugSource\<close>
  makes of it.\<close>

record rawDebugSource =
  raw_fileName :: "string option"
  raw_lineNumber :: "int option"
  raw_columnNumber :: "int option"

record debugSource =
  fileName :: string
  lineNumber :: int
  columnNumber :: "int option"

text \<open>\<^verbatim>\<open>fiber.type\<close>: a falsy value, a function (with \<^verbatim>\<open>displayName\<close> and \<^verbatim>\<open>name\<close>), an
  object wrapper (with \<^verbatim>\<open>displayName\<close>, \<^verbatim>\<open>render\<close>, the text of \<^verbatim>\<open>$$typeof\<close> and the inner
  \<^verbatim>\<open>type\<close>; \<^verbatim>\<open>render\<close> and the inner type each carry a \<^verbatim>\<open>displayName\<close> and a \<^verbatim>\<open>name\<close>),
  or the tag string of a host element.\<close>

datatype fiberType =
    TypeFalsy
  | TypeFunction "string option" "string option"
  | TypeObject "string option" "(string option \<times> string option) option" "string option"
      "(string option \<times> string option) option"
  | TypeString string

record fiber =
  fiber_type :: fiberType
  fiber_debugSource :: "rawDebugSource option"
  memoizedProps :: "(string \<times> jsval) list option"
  fiber_return :: "nat option"

text \<open>Fibers are objects that refer to each other; the store maps a reference to the object.\<close>

type_synonym fibers = "nat \<Rightarrow> fiber"

definition getDebugSource :: "fiber \<Rightarrow> debugSource option" where
  "getDebugSource fb =
     (case fiber_debugSource fb of
        None \<Rightarrow> None
      | Some source \<Rightarrow>
          if truthy (raw_fileName source)
          then Some \<lparr>fileName = the (raw_fileName source),
                     lineNumber = (case raw_lineNumber source of None \<Rightarrow> 0 | Some n \<Rightarrow> n),
                     columnNumber = raw_columnNumber source\<rparr>
          else None)"

definition getComponentDisplayName :: "fiber \<Rightarrow> string option" where
  "getComponentDisplayName fb =
     (case fiber_type fb of
        TypeFalsy \<Rightarrow> None
      | TypeFunction displayName name \<Rightarrow>
          (if truthy displayName then displayName else if truthy name then name else None)
      | TypeObject displayName render typeofText inner \<Rightarrow>
          (if truthy displayName then displayName
           else (case render of
                   Some (rDisplayName, rName) \<Rightarrow>
                     (if truthy rDisplayName then rDisplayName
                      else if truthy rName then rName else None)
                 | None \<Rightarrow>
                     (case typeofText of
                        None \<Rightarrow> None
                      | Some typeStr \<Rightarrow>
                          if js_includes typeStr ''forward_ref'' then Some ''ForwardRef''
                          else if js_includes typeStr ''memo'' then
                            (case inner of
                               Some (iDisplayName, iName) \<Rightarrow>
                                 (if truthy iDisplayName then iDisplayName
                                  else if truthy iName then iName else Some ''Memo'')
                             | None \<Rightarrow> Some ''Memo'')
                          else None)))
      | TypeString s \<Rightarrow> (if s = [] then None else Some s))"

section \<open>Value sanitizer\<close>

definition skip :: "string list" where
  "skip = [''children'', ''ref'', ''key'', ''__self'', ''__source'']"

text \<open>One turn of the \<^verbatim>\<open>for (const key in props)\<close> loop of \<^verbatim>\<open>getSafeProps\<close>:
  \<open>safe\<close> is the record built so far, \<open>safe[key] = v\<close> is \<^const>\<open>AList.update\<close>.\<close>

definition safePropsStep :: "(string \<times> jsval) list \<Rightarrow> string \<times> jsval \<Rightarrow> (string \<times> jsval) list" where
  "safePropsStep safe kv =
     (let key = fst kv; value = snd kv in
      if key \<in> set skip then safe
      else if typeof value = ''function'' then AList.update key (JStr ''[Function]'') safe
      else if typeof value = ''object'' \<and> value \<noteq> JNull then
        (if isArray value
         then AList.update key (JStr (''[Array('' @ show_nat (js_length value) @ '')]'')) safe
         else AList.update key (JStr ''[Object]'') safe)
      else if typeof value = ''string'' \<and> js_length value > 100
        then AList.update key (JStr (js_slice 100 value @ ''...'')) safe
      else if value \<noteq> JUndefined then AList.update key value safe
      else safe)"

definition getSafeProps :: "fiber \<Rightarrow> (string \<times> jsval) list option" where
  "getSafeProps fb =
     (case memoizedProps fb of
        None \<Rightarrow> None
      | Some props \<Rightarrow>
          (let safe = foldl safePropsStep [] props
           in if length safe > 0 then Some safe else None))"

section \<open>Component-tree walker\<close>

record treeEntry =
  c_name :: string
  c_source :: "debugSource option"
  c_props :: "(string \<times> jsval) list option"
  isUserComponent :: bool

record stackEntry =
  s_name :: string
  s_source :: "debugSource option"

text \<open>\<^verbatim>\<open>/^[A-Z]/.test(name)\<close>\<close>

definition beginsUpper :: "string \<Rightarrow> bool" where
  "beginsUpper s = (case s of [] \<Rightarrow> False | c # cs \<Rightarrow> c \<in> set upperLetters)"

text \<open>The body of the walk's loop at one hop: the list after the hop at \<open>depth\<close>.\<close>

definition pushHop :: "fiber \<Rightarrow> nat \<Rightarrow> treeEntry list \<Rightarrow> treeEntry list" where
  "pushHop fb depth tree =
     (let nm = getComponentDisplayName fb in
      if truthy nm \<and> \<not> startsWith (the nm) ''_'' \<and> the nm \<noteq> ''Fragment''
      then tree @ [\<lparr>c_name = the nm,
                     c_source = getDebugSource fb,
                     c_props = (if depth < 5 then getSafeProps fb else None),
                     isUserComponent = beginsUpper (the nm)\<rparr>]
      else tree)"

text \<open>The \<^verbatim>\<open>while (fiber && depth < 30)\<close> loop; it returns the list it built and the final
  \<^verbatim>\<open>depth\<close>, the number of hops it visited.\<close>

function treeWalk :: "fibers \<Rightarrow> nat option \<Rightarrow> nat \<Rightarrow> treeEntry list \<Rightarrow> treeEntry list \<times> nat" where
  "treeWalk fs fiber depth tree =
     (case fiber of
        None \<Rightarrow> (tree, depth)
      | Some f \<Rightarrow>
          if depth < 30
          then treeWalk fs (fiber_return (fs f)) (depth + 1) (pushHop (fs f) depth tree)
          else (tree, depth))"
  by pat_completeness auto
termination
  by (relation "measure (\<lambda>(fs, fiber, depth, tree). 30 - depth)") auto

declare treeWalk.simps [simp del]

text \<open>The \<^verbatim>\<open>ReactInfo\<close> object that crosses the context boundary; \<^verbatim>\<open>null\<close> and a missing
  field are both \<open>None\<close>.\<close>

record reactInfo =
  hasReact :: "bool option"
  r_componentName :: "string option"
  r_sourceFile :: "string option"
  r_sourceLine :: "int option"
  r_sourceColumn :: "int option"
  r_props :: "(string \<times> jsval) list option"
  r_componentHierarchy :: "string list option"
  r_fullReactTree :: "string list option"
  r_componentStack :: "stackEntry list option"
  r_error :: "string option"

text \<open>The object \<^verbatim>\<open>{}\<close>.\<close>

definition emptyInfo :: reactInfo where
  "emptyInfo = \<lparr>hasReact = None, r_componentName = None, r_sourceFile = None,
     r_sourceLine = None, r_sourceColumn = None, r_props = None, r_componentHierarchy = None,
     r_fullReactTree = None, r_componentStack = None, r_error = None\<rparr>"

text \<open>What the walker returns once the loop has built \<open>tree\<close>.\<close>

definition componentInfo :: "treeEntry list \<Rightarrow> reactInfo" where
  "componentInfo tree =
     (let userComponents = filter isUserComponent tree;
          firstComponent = (case userComponents of [] \<Rightarrow> None | c # cs \<Rightarrow> Some c)
      in \<lparr>hasReact = Some True,
          r_componentName =
            (case firstComponent of None \<Rightarrow> None
             | Some c \<Rightarrow> if c_name c \<noteq> [] then Some (c_name c) else None),
          r_sourceFile =
            (case firstComponent of None \<Rightarrow> None
             | Some c \<Rightarrow> (case c_source c of None \<Rightarrow> None
                 | Some s \<Rightarrow> if fileName s \<noteq> [] then Some (fileName s) else None)),
          r_sourceLine =
            (case firstComponent of None \<Rightarrow> None
             | Some c \<Rightarrow> (case c_source c of None \<Rightarrow> None
                 | Some s \<Rightarrow> if lineNumber s \<noteq> 0 then Some (lineNumber s) else None)),
          r_sourceColumn =
            (case firstComponent of None \<Rightarrow> None
             | Some c \<Rightarrow> (case c_source c of None \<Rightarrow> None
                 | Some s \<Rightarrow> (case columnNumber s of None \<Rightarrow> None
                     | Some n \<Rightarrow> if n \<noteq> 0 then Some n else None))),
          r_props = (case firstComponent of None \<Rightarrow> None | Some c \<Rightarrow> c_props c),
          r_componentHierarchy = Some (map c_name userComponents),
          r_fullReactTree = Some (map c_name tree),
          r_componentStack =
            Some (map (\<lambda>c. \<lparr>s_name = c_name c, s_source = c_source c\<rparr>) (take 10 userComponents)),
          r_error = None\<rparr>)"

section \<open>The document\<close>

text \<open>An element as the engine reads it. \<open>className\<close> is \<open>None\<close> where it is not a string
  (an SVG element); \<open>ownKeys\<close> are the expando properties a \<^verbatim>\<open>for ... in\<close> finds, with the
  fiber they refer to; \<open>computedStyle\<close> is \<^verbatim>\<open>getComputedStyle(el).getPropertyValue\<close>.
  Elements refer to each other, so the document maps a reference to the element.\<close>

record element =
  nodeName :: string
  attributes :: "(string \<times> string) list"
  className :: "string option"
  parentElement :: "nat option"
  children :: "nat list"
  innerText :: "string option"
  innerHTML :: string
  ownKeys :: "(string \<times> nat option) list"
  computedStyle :: "string \<Rightarrow> string"

record document =
  elems :: "nat \<Rightarrow> element"
  body :: "nat option"

definition getAttribute :: "element \<Rightarrow> string \<Rightarrow> string option" where
  "getAttribute e a = map_of (attributes e) a"

text \<open>\<^verbatim>\<open>element.id\<close> reflects the attribute and is the empty string without it.\<close>

definition element_id :: "element \<Rightarrow> string" where
  "element_id e = (case getAttribute e ''id'' of None \<Rightarrow> [] | Some v \<Rightarrow> v)"

definition getReactFiber :: "element \<Rightarrow> nat option" where
  "getReactFiber e =
     (case find (\<lambda>kv. startsWith (fst kv) ''__reactFiber$''
                     \<or> startsWith (fst kv) ''__reactInternalInstance$'') (ownKeys e) of
        None \<Rightarrow> None
      | Some kv \<Rightarrow> snd kv)"

text \<open>The retry on up to 10 ancestors.\<close>

function findFiber :: "document \<Rightarrow> nat option \<Rightarrow> nat option \<Rightarrow> nat \<Rightarrow> nat option" where
  "findFiber d parent fiber attempts =
     (case parent of
        None \<Rightarrow> fiber
      | Some p \<Rightarrow>
          if fiber = None \<and> attempts < 10
          then findFiber d (parentElement (elems d p)) (getReactFiber (elems d p)) (attempts + 1)
          else fiber)"
  by pat_completeness auto
termination
  by (relation "measure (\<lambda>(d, parent, fiber, attempts). 10 - attempts)") auto

declare findFiber.simps [simp del]

text \<open>The function the background context runs in the page for a \<^verbatim>\<open>GET_REACT_INFO\<close> request.
  \<open>element\<close> is what \<^verbatim>\<open>document.querySelector(selector)\<close> found.\<close>

definition getReactInfo :: "document \<Rightarrow> fibers \<Rightarrow> nat option \<Rightarrow> reactInfo" where
  "getReactInfo d fs element =
     (case element of
        None \<Rightarrow> emptyInfo\<lparr>r_error := Some ''Element not found''\<rparr>
      | Some el \<Rightarrow>
          (let fiber0 = getReactFiber (elems d el);
               fiber = (if fiber0 = None
                        then findFiber d (parentElement (elems d el)) fiber0 0
                        else fiber0)
           in if fiber = None then emptyInfo\<lparr>hasReact := Some False\<rparr>
              else componentInfo (fst (treeWalk fs fiber 0 []))))"

section \<open>Ancestor walker and selector synthesizer\<close>

definition classList :: "element \<Rightarrow> string list" where
  "classList e = (case className e of None \<Rightarrow> [] | Some s \<Rightarrow> if s = [] then [] else splitBlank s [])"

text \<open>\<^verbatim>\<open>getAttribute('data-testid') || getAttribute('data-test-id')\<close>\<close>

definition testIdOf :: "element \<Rightarrow> string option" where
  "testIdOf e = (if truthy (getAttribute e ''data-testid'') then getAttribute e ''data-testid''
                 else getAttribute e ''data-test-id'')"

text \<open>The children of \<open>p\<close> with the tag of \<open>c\<close> (for an element \<^verbatim>\<open>tagName\<close> and \<^verbatim>\<open>nodeName\<close>
  are the same string).\<close>

definition sameTagSiblings :: "document \<Rightarrow> nat \<Rightarrow> nat \<Rightarrow> nat list" where
  "sameTagSiblings d p c =
     filter (\<lambda>x. nodeName (elems d x) = nodeName (elems d c)) (children (elems d p))"

text \<open>The \<^verbatim>\<open>:nth-of-type(k)\<close> suffix both walks add, or nothing.\<close>

definition nthOfType :: "document \<Rightarrow> nat \<Rightarrow> string" where
  "nthOfType d c =
     (case parentElement (elems d c) of
        None \<Rightarrow> []
      | Some p \<Rightarrow>
          (let siblings = sameTagSiblings d p c
           in if length siblings > 1
              then '':nth-of-type('' @ show_int (indexOf siblings c + 1) @ '')''
              else []))"

text \<open>The body of the loop of \<^verbatim>\<open>getFullDomPath\<close>: the token of one node, which is the tag
  with the id, else the test id, else the first two classes, and then the positional
  suffix.\<close>

definition domPathBase :: "element \<Rightarrow> string" where
  "domPathBase cur =
     (let part = toLowerCase (nodeName cur);
          ident = getAttribute cur ''id'';
          tid = testIdOf cur;
          classes = classList cur
      in if truthy ident then part @ ''#'' @ the ident
         else if truthy tid then part @ ''[data-testid='' @ [CHR 0x27] @ the tid @ [CHR 0x27] @ '']''
         else if length classes > 0 then part @ ''.'' @ join ''.'' (take 2 classes)
         else part)"

definition domPathPart :: "document \<Rightarrow> nat \<Rightarrow> string" where
  "domPathPart d c = domPathBase (elems d c) @ nthOfType d c"

function fullDomPathLoop :: "document \<Rightarrow> nat option \<Rightarrow> string list \<Rightarrow> string list" where
  "fullDomPathLoop d current parts =
     (case current of
        None \<Rightarrow> parts
      | Some c \<Rightarrow>
          if Some c \<noteq> body d \<and> length parts < 15
          then fullDomPathLoop d (parentElement (elems d c)) (domPathPart d c # parts)
          else parts)"
  by pat_completeness auto
termination
  by (relation "measure (\<lambda>(d, current, parts). 15 - length parts)") auto

declare fullDomPathLoop.simps [simp del]

definition getFullDomPath :: "document \<Rightarrow> nat \<Rightarrow> string" where
  "getFullDomPath d node = join '' > '' (fullDomPathLoop d (Some node) [])"

text \<open>The token \<^verbatim>\<open>getUniqueSelector\<close> emits for a node without an id.\<close>

definition selectorToken :: "document \<Rightarrow> nat \<Rightarrow> string" where
  "selectorToken d c = toLowerCase (nodeName (elems d c)) @ nthOfType d c"

text \<open>The loop of \<^verbatim>\<open>getUniqueSelector\<close> has no bound of its own: it ends at the body, at a
  node without a parent or at a node with an id. \<open>None\<close> is a walk that never ends.\<close>

partial_function (option) uniqueSelectorLoop ::
  "document \<Rightarrow> nat option \<Rightarrow> string list \<Rightarrow> string list option" where
  "uniqueSelectorLoop d current path =
     (case current of
        None \<Rightarrow> Some path
      | Some c \<Rightarrow>
          if Some c = body d then Some path
          else if element_id (elems d c) \<noteq> [] then Some ((''#'' @ element_id (elems d c)) # path)
          else uniqueSelectorLoop d (parentElement (elems d c)) (selectorToken d c # path))"

definition getUniqueSelector :: "document \<Rightarrow> nat \<Rightarrow> string option" where
  "getUniqueSelector d el =
     (if element_id (elems d el) \<noteq> [] then Some (''#'' @ element_id (elems d el))
      else if truthy (testIdOf (elems d el))
        then Some (''[data-testid='' @ [CHR 0x22] @ the (testIdOf (elems d el)) @ [CHR 0x22] @ '']'')
      else map_option (join '' > '') (uniqueSelectorLoop d (Some el) []))"

record parentEntry =
  p_tag :: string
  p_id :: "string option"
  p_classes :: "string list option"
  p_testId :: "string option"

definition parentEntryOf :: "element \<Rightarrow> parentEntry" where
  "parentEntryOf cur =
     \<lparr>p_tag = toLowerCase (nodeName cur),
      p_id = (if truthy (getAttribute cur ''id'') then getAttribute cur ''id'' else None),
      p_classes = (if length (classList cur) > 0 then Some (classList cur) else None),
      p_testId = (if truthy (testIdOf cur) then testIdOf cur else None)\<rparr>"

function parentChainLoop ::
  "document \<Rightarrow> nat option \<Rightarrow> nat \<Rightarrow> nat \<Rightarrow> parentEntry list \<Rightarrow> parentEntry list" where
  "parentChainLoop d current depth maxDepth chain =
     (case current of
        None \<Rightarrow> chain
      | Some c \<Rightarrow>
          if Some c \<noteq> body d \<and> depth < maxDepth
          then parentChainLoop d (parentElement (elems d c)) (depth + 1) maxDepth
                 (chain @ [parentEntryOf (elems d c)])
          else chain)"
  by pat_completeness auto
termination
  by (relation "measure (\<lambda>(d, current, depth, maxDepth, chain). maxDepth - depth)") auto

declare parentChainLoop.simps [simp del]

definition getParentChain :: "document \<Rightarrow> nat \<Rightarrow> nat \<Rightarrow> parentEntry list" where
  "getParentChain d node maxDepth = parentChainLoop d (parentElement (elems d node)) 0 maxDepth []"

section \<open>Attribute and style sampler\<close>

text \<open>\<^verbatim>\<open>getAllAttributes\<close> of the content script.\<close>

definition getAllAttributes :: "element \<Rightarrow> (string \<times> string) list" where
  "getAllAttributes e =
     foldl (\<lambda>attrs a.
              if \<not> startsWith (fst a) ''__react'' \<and> \<not> startsWith (fst a) ''data-element-agent''
              then AList.update (fst a) (take 200 (snd a)) attrs
              else attrs)
       [] (attributes e)"

text \<open>\<^verbatim>\<open>getAllAttributes\<close> of the panel's capture script.\<close>

definition panel_getAllAttributes :: "element \<Rightarrow> (string \<times> string) list" where
  "panel_getAllAttributes e =
     foldl (\<lambda>attrs a.
              if \<not> startsWith (fst a) ''__react''
              then AList.update (fst a) (take 200 (snd a)) attrs
              else attrs)
       [] (attributes e)"

definition relevant :: "string list" where
  "relevant = [''display'', ''position'', ''flex-direction'', ''justify-content'', ''align-items'',
     ''width'', ''height'', ''padding'', ''margin'', ''background-color'', ''color'',
     ''font-size'', ''font-weight'', ''border'', ''border-radius'', ''opacity'', ''visibility'']"

definition getRelevantStyles :: "element \<Rightarrow> (string \<times> string) list" where
  "getRelevantStyles e =
     foldl (\<lambda>styles prop.
              (let val = computedStyle e prop
               in if val \<noteq> [] \<and> val \<noteq> ''none'' \<and> val \<noteq> ''normal'' \<and> val \<noteq> ''auto'' \<and> val \<noteq> ''0px''
                  then AList.update prop val styles
                  else styles))
       [] relevant"

section \<open>Cross-context request\<close>

text \<open>A promise: still pending, resolved with a value, or rejected.\<close>

datatype 'a promise = Pending | Resolved 'a | Rejected string

text \<open>The object the background context passes to \<^verbatim>\<open>sendResponse\<close>, and what the callback of
  \<^verbatim>\<open>chrome.runtime.sendMessage\<close> finds: \<^verbatim>\<open>chrome.runtime.lastError\<close> (set when the message
  could not be delivered or no receiver answered) and the response.\<close>

record response =
  resp_result :: "reactInfo option"
  resp_error :: "string option"

record sendMessageOutcome =
  lastError :: "string option"
  sent_response :: "response option"

text \<open>What a call of \<^verbatim>\<open>chrome.runtime.sendMessage\<close> does: it throws at once (the content
  script has lost its extension context), it never invokes the callback, or it invokes the
  callback once.\<close>

datatype sendMessageCall =
    SendThrows string
  | CallbackNever
  | CallbackWith sendMessageOutcome

text \<open>The executor of the promise calls \<^verbatim>\<open>sendMessage\<close> with no \<^verbatim>\<open>try\<close> around it, so an
  exception of the call rejects the promise; only the callback resolves it.\<close>

definition getReactInfoFromBackground :: "string \<Rightarrow> sendMessageCall \<Rightarrow> reactInfo promise" where
  "getReactInfoFromBackground sel call =
     (case call of
        SendThrows err \<Rightarrow> Rejected err
      | CallbackNever \<Rightarrow> Pending
      | CallbackWith outcome \<Rightarrow>
          if lastError outcome \<noteq> None then Resolved emptyInfo
          else Resolved (case sent_response outcome of
                           None \<Rightarrow> emptyInfo
                         | Some r \<Rightarrow> (case resp_result r of None \<Rightarrow> emptyInfo | Some i \<Rightarrow> i)))"

text \<open>How \<^verbatim>\<open>chrome.scripting.executeScript\<close> settled: rejected with a message, or fulfilled;
  \<open>ExecResults r\<close> carries \<^verbatim>\<open>results?.[0]?.result\<close>.\<close>

datatype execOutcome = ExecRejected string | ExecResults "reactInfo option"

text \<open>The \<^verbatim>\<open>GET_REACT_INFO\<close> branch of the background listener. A tab id is missing when
  \<^verbatim>\<open>sender.tab?.id\<close> is undefined or 0.\<close>

definition handleGetReactInfo :: "nat option \<Rightarrow> execOutcome \<Rightarrow> response" where
  "handleGetReactInfo tabId exec =
     (if tabId = None \<or> tabId = Some 0 then \<lparr>resp_result = None, resp_error = Some ''No tab ID''\<rparr>
      else (case exec of
              ExecResults r \<Rightarrow>
                \<lparr>resp_result = Some (case r of None \<Rightarrow> emptyInfo | Some i \<Rightarrow> i), resp_error = None\<rparr>
            | ExecRejected msg \<Rightarrow> \<lparr>resp_result = None, resp_error = Some msg\<rparr>))"

section \<open>Descriptor assembler\<close>

record elementMeta =
  m_tag :: string
  m_text :: string
  m_innerHTML :: string
  m_componentName :: "string option"
  m_displayName :: "string option"
  m_componentHierarchy :: "string list option"
  m_fullReactTree :: "string list option"
  m_testId :: "string option"
  m_allClasses :: "string list option"
  m_allAttributes :: "(string \<times> string) list option"
  m_computedStyles :: "(string \<times> string) list option"
  m_domPath :: string
  m_parentChain :: "parentEntry list option"
  m_siblingIndex :: int
  m_childCount :: nat
  m_sourceFile :: "string option"
  m_sourceLine :: "int option"
  m_sourceColumn :: "int option"
  m_componentStack :: "stackEntry list option"
  m_props :: "(string \<times> jsval) list option"

record elementInfo =
  selector :: string
  meta :: elementMeta

definition siblingIndexOf :: "document \<Rightarrow> nat \<Rightarrow> int" where
  "siblingIndexOf d el =
     (case parentElement (elems d el) of
        None \<Rightarrow> 0
      | Some p \<Rightarrow> indexOf (children (elems d p)) el)"

definition textOf :: "element \<Rightarrow> string" where
  "textOf e = take 200 (trim (case innerText e of None \<Rightarrow> [] | Some t \<Rightarrow> t))"

text \<open>The object \<^verbatim>\<open>getElementInfo\<close> returns once the awaited request has resolved to
  \<open>ri\<close>.\<close>

definition assemble :: "document \<Rightarrow> nat \<Rightarrow> reactInfo \<Rightarrow> elementInfo" where
  "assemble d el ri =
     (let e = elems d el;
          tid = testIdOf e;
          allClasses = classList e;
          allAttributes = getAllAttributes e;
          computedStyles = getRelevantStyles e;
          parentChain = getParentChain d el 8;
          siblingIndex = siblingIndexOf d el
      in \<lparr>selector = getFullDomPath d el,
          meta = \<lparr>m_tag = toLowerCase (nodeName e),
                   m_text = textOf e,
                   m_innerHTML = take 500 (innerHTML e),
                   m_componentName = strOrUndefined (r_componentName ri),
                   m_displayName = strOrUndefined (r_componentName ri),
                   m_componentHierarchy = r_componentHierarchy ri,
                   m_fullReactTree = r_fullReactTree ri,
                   m_testId = strOrUndefined tid,
                   m_allClasses = (if length allClasses > 0 then Some allClasses else None),
                   m_allAttributes = (if length allAttributes > 0 then Some allAttributes else None),
                   m_computedStyles = (if length computedStyles > 0 then Some computedStyles else None),
                   m_domPath = getFullDomPath d el,
                   m_parentChain = (if length parentChain > 0 then Some parentChain else None),
                   m_siblingIndex = siblingIndex,
                   m_childCount = length (children e),
                   m_sourceFile = strOrUndefined (r_sourceFile ri),
                   m_sourceLine = numOrUndefined (r_sourceLine ri),
                   m_sourceColumn = numOrUndefined (r_sourceColumn ri),
                   m_componentStack = r_componentStack ri,
                   m_props = r_props ri\<rparr>\<rparr>)"

text \<open>\<^verbatim>\<open>getElementInfo\<close> of the content script. \<open>transport\<close> says what the call of
  \<^verbatim>\<open>sendMessage\<close> does for a given selector. The result is \<open>None\<close> when the selector loop
  never ends; the function awaits the request, so it stays pending or rejects with it.\<close>

definition getElementInfo ::
  "document \<Rightarrow> (string \<Rightarrow> sendMessageCall) \<Rightarrow> nat \<Rightarrow> elementInfo promise option" where
  "getElementInfo d transport el =
     (case getUniqueSelector d el of
        None \<Rightarrow> None
      | Some sel \<Rightarrow>
          (case getReactInfoFromBackground sel (transport sel) of
             Pending \<Rightarrow> Some Pending
           | Rejected err \<Rightarrow> Some (Rejected err)
           | Resolved ri \<Rightarrow> Some (Resolved (assemble d el ri))))"

section \<open>The capture script of the panel\<close>

text \<open>The panel evaluates its own copy of the engine on the inspected node; where the copy
  differs from the functions above it is modelled apart.\<close>

definition panel_getComponentDisplayName :: "fiber \<Rightarrow> string option" where
  "panel_getComponentDisplayName fb =
     (case fiber_type fb of
        TypeFalsy \<Rightarrow> None
      | TypeFunction displayName name \<Rightarrow>
          (if truthy displayName then displayName else if truthy name then name else None)
      | TypeObject displayName render typeofText inner \<Rightarrow>
          (if truthy displayName then displayName
           else (case render of
                   Some (rDisplayName, rName) \<Rightarrow>
                     (if truthy rDisplayName then rDisplayName
                      else if truthy rName then rName else None)
                 | None \<Rightarrow> None))
      | TypeString s \<Rightarrow> (if s = [] then None else Some s))"

definition panel_safePropsStep ::
  "(string \<times> jsval) list \<Rightarrow> string \<times> jsval \<Rightarrow> (string \<times> jsval) list" where
  "panel_safePropsStep safe kv =
     (let k = fst kv; v = snd kv in
      if k \<in> set skip then safe
      else if typeof v = ''function'' then AList.update k (JStr ''[Function]'') safe
      else if typeof v = ''object'' \<and> v \<noteq> JNull then
        (if isArray v
         then AList.update k (JStr (''[Array('' @ show_nat (js_length v) @ '')]'')) safe
         else AList.update k (JStr ''[Object]'') safe)
      else if typeof v = ''string'' \<and> js_length v > 100
        then AList.update k (JStr (js_slice 100 v @ ''...'')) safe
      else AList.update k v safe)"

definition panel_getSafeProps :: "fiber \<Rightarrow> (string \<times> jsval) list option" where
  "panel_getSafeProps fb =
     (case memoizedProps fb of
        None \<Rightarrow> None
      | Some props \<Rightarrow>
          (let safe = foldl panel_safePropsStep [] props
           in if length safe > 0 then Some safe else None))"

record panelEntry =
  pn_name :: string
  pn_source :: "debugSource option"
  pn_props :: "(string \<times> jsval) list option"

definition panel_pushHop :: "fiber \<Rightarrow> nat \<Rightarrow> panelEntry list \<Rightarrow> panelEntry list" where
  "panel_pushHop fb depth tree =
     (let nm = panel_getComponentDisplayName fb in
      if truthy nm \<and> \<not> startsWith (the nm) ''_'' \<and> the nm \<noteq> ''Fragment''
      then tree @ [\<lparr>pn_name = the nm,
                     pn_source = getDebugSource fb,
                     pn_props = (if depth < 5 then panel_getSafeProps fb else None)\<rparr>]
      else tree)"

function panel_treeWalk ::
  "fibers \<Rightarrow> nat option \<Rightarrow> nat \<Rightarrow> nat \<Rightarrow> panelEntry list \<Rightarrow> panelEntry list" where
  "panel_treeWalk fs fiber depth maxDepth tree =
     (case fiber of
        None \<Rightarrow> tree
      | Some f \<Rightarrow>
          if depth < maxDepth
          then panel_treeWalk fs (fiber_return (fs f)) (depth + 1) maxDepth
                 (panel_pushHop (fs f) depth tree)
          else tree)"
  by pat_completeness auto
termination
  by (relation "measure (\<lambda>(fs, fiber, depth, maxDepth, tree). maxDepth - depth)") auto

declare panel_treeWalk.simps [simp del]

definition getFullReactTreeWithSources :: "document \<Rightarrow> fibers \<Rightarrow> nat \<Rightarrow> nat \<Rightarrow> panelEntry list" where
  "getFullReactTreeWithSources d fs el maxDepth =
     (let fiber0 = getReactFiber (elems d el);
          fiber = (if fiber0 = None
                   then findFiber d (parentElement (elems d el)) fiber0 0
                   else fiber0)
      in if fiber = None then [] else panel_treeWalk fs fiber 0 maxDepth [])"

text \<open>The value of the script; \<open>inspected\<close> is \<^verbatim>\<open>$0\<close>. The outline the script draws on the
  node for two seconds is not part of the value.\<close>

definition captureElement :: "document \<Rightarrow> fibers \<Rightarrow> nat option \<Rightarrow> elementInfo option" where
  "captureElement d fs inspected =
     (case inspected of
        None \<Rightarrow> None
      | Some el \<Rightarrow>
          (let e = elems d el;
               reactTreeWithSources = getFullReactTreeWithSources d fs el 30;
               componentHierarchy =
                 map pn_name (filter (\<lambda>c. beginsUpper (pn_name c)) reactTreeWithSources);
               fullReactTree = map pn_name reactTreeWithSources;
               firstComponent = find (\<lambda>c. beginsUpper (pn_name c)) reactTreeWithSources;
               componentName = strOrUndefined (map_option pn_name firstComponent);
               sourceFile = map_option fileName (Option.bind firstComponent pn_source);
               sourceLine = map_option lineNumber (Option.bind firstComponent pn_source);
               sourceColumn = Option.bind (Option.bind firstComponent pn_source) columnNumber;
               props = Option.bind firstComponent pn_props;
               componentStack =
                 map (\<lambda>c. \<lparr>s_name = pn_name c, s_source = pn_source c\<rparr>)
                   (take 10 (filter (\<lambda>c. beginsUpper (pn_name c)) reactTreeWithSources));
               tid = testIdOf e;
               allClasses = classList e;
               allAttributes = panel_getAllAttributes e;
               computedStyles = getRelevantStyles e;
               parentChain = getParentChain d el 8;
               siblingIndex = siblingIndexOf d el
           in Some \<lparr>selector = getFullDomPath d el,
                meta = \<lparr>m_tag = toLowerCase (nodeName e),
                   m_text = textOf e,
                   m_innerHTML = take 500 (innerHTML e),
                   m_componentName = strOrUndefined componentName,
                   m_displayName = strOrUndefined componentName,
                   m_componentHierarchy =
                     (if length componentHierarchy > 0 then Some componentHierarchy else None),
                   m_fullReactTree = (if length fullReactTree > 0 then Some fullReactTree else None),
                   m_testId = strOrUndefined tid,
                   m_allClasses = (if length allClasses > 0 then Some allClasses else None),
                   m_allAttributes = (if length allAttributes > 0 then Some allAttributes else None),
                   m_computedStyles = (if length computedStyles > 0 then Some computedStyles else None),
                   m_domPath = getFullDomPath d el,
                   m_parentChain = (if length parentChain > 0 then Some parentChain else None),
                   m_siblingIndex = siblingIndex,
                   m_childCount = length (children e),
                   m_sourceFile = strOrUndefined sourceFile,
                   m_sourceLine = numOrUndefined sourceLine,
                   m_sourceColumn = numOrUndefined sourceColumn,
                   m_componentStack = (if length componentStack > 0 then Some componentStack else None),
                   m_props = props\<rparr>\<rparr>))"

section \<open>Specification-side notions\<close>

text \<open>What the walker keeps: a name that is not empty, does not begin with an underscore and
  is not the fragment marker.\<close>

definition retained :: "treeEntry \<Rightarrow> bool" where
  "retained e = (c_name e \<noteq> [] \<and> \<not> startsWith (c_name e) ''_'' \<and> c_name e \<noteq> ''Fragment'')"

text \<open>What every entry of the walk carries besides: the classification by the first letter,
  and a source only with a file name.\<close>

definition sourced :: "treeEntry \<Rightarrow> bool" where
  "sourced e = (isUserComponent e = beginsUpper (c_name e)
                 \<and> (case c_source e of None \<Rightarrow> True | Some s \<Rightarrow> fileName s \<noteq> []))"

text \<open>The sanitizer as the specification words it: the rules in order on one value, applied
  to every prop that is not reserved, and an absent result when nothing is left.\<close>

fun sanitizeValue_spec :: "jsval \<Rightarrow> jsval" where
  "sanitizeValue_spec JFunction = JStr ''[Function]''"
| "sanitizeValue_spec (JArray xs) = JStr (''[Array('' @ show_nat (length xs) @ '')]'')"
| "sanitizeValue_spec (JObject kvs) = JStr ''[Object]''"
| "sanitizeValue_spec (JStr s) = (if length s > 100 then JStr (take 100 s @ ''...'') else JStr s)"
| "sanitizeValue_spec v = v"

definition sanitize_spec :: "(string \<times> jsval) list \<Rightarrow> (string \<times> jsval) list option" where
  "sanitize_spec props =
     (let kept = map (\<lambda>kv. (fst kv, sanitizeValue_spec (snd kv)))
                   (filter (\<lambda>kv. fst kv \<notin> set skip) props)
      in if kept = [] then None else Some kept)"

text \<open>The attribute sampler as the specification words it.\<close>

definition sampleAttributes_spec :: "(string \<times> string) list \<Rightarrow> (string \<times> string) list" where
  "sampleAttributes_spec attrs =
     map (\<lambda>a. (fst a, take 200 (snd a)))
       (filter (\<lambda>a. \<not> startsWith (fst a) ''__react'' \<and> \<not> startsWith (fst a) ''data-element-agent'')
          attrs)"

text \<open>The nodes an ancestor walk of at most \<open>n\<close> steps meets from \<open>current\<close> upwards before it
  reaches the body or runs out of parents.\<close>

fun ancestorsBelowBody :: "document \<Rightarrow> nat option \<Rightarrow> nat \<Rightarrow> nat list" where
  "ancestorsBelowBody d current 0 = []"
| "ancestorsBelowBody d current (Suc n) =
     (case current of
        None \<Rightarrow> []
      | Some c \<Rightarrow>
          if Some c = body d then []
          else c # ancestorsBelowBody d (parentElement (elems d c)) n)"

text \<open>The fibers of the first \<open>n\<close> hops from a handle along \<^verbatim>\<open>return\<close>, nearest first.\<close>

fun hopChain :: "fibers \<Rightarrow> nat option \<Rightarrow> nat \<Rightarrow> nat list" where
  "hopChain fs cur 0 = []"
| "hopChain fs cur (Suc n) =
     (case cur of None \<Rightarrow> [] | Some f \<Rightarrow> f # hopChain fs (fiber_return (fs f)) n)"

text \<open>A hop that counts as a user component: its derived name is kept by the walk and begins
  with an upper-case letter.\<close>

definition userHop :: "fiber \<Rightarrow> bool" where
  "userHop fb =
     (case getComponentDisplayName fb of
        None \<Rightarrow> False
      | Some nm \<Rightarrow> nm \<noteq> [] \<and> \<not> startsWith nm ''_'' \<and> nm \<noteq> ''Fragment'' \<and> beginsUpper nm)"

text \<open>The user components among the first 30 hops, each with the number of its hop.\<close>

definition userHops :: "fibers \<Rightarrow> nat option \<Rightarrow> (nat \<times> nat) list" where
  "userHops fs start = filter (\<lambda>kf. userHop (fs (snd kf))) (enumerate 0 (hopChain fs start 30))"

text \<open>The debug source the runtime recorded on a fiber: file, line and optional column. It
  counts only with a file name; a line that was not recorded is 0.\<close>

definition recordedSource :: "fiber \<Rightarrow> debugSource option" where
  "recordedSource fb =
     (case fiber_debugSource fb of
        None \<Rightarrow> None
      | Some s \<Rightarrow>
          (case raw_fileName s of
             None \<Rightarrow> None
           | Some file \<Rightarrow>
               if file = [] then None
               else Some \<lparr>fileName = file,
                          lineNumber = (case raw_lineNumber s of None \<Rightarrow> 0 | Some l \<Rightarrow> l),
                          columnNumber = raw_columnNumber s\<rparr>))"



section \<open>Sample documents and instance trees\<close>

definition hostFiber :: "string \<Rightarrow> nat option \<Rightarrow> fiber" where
  "hostFiber tg r = \<lparr>fiber_type = TypeString tg, fiber_debugSource = None,
     memoizedProps = None, fiber_return = r\<rparr>"

definition componentFiber :: "string \<Rightarrow> nat \<Rightarrow> nat option \<Rightarrow> fiber" where
  "componentFiber nm line r = \<lparr>fiber_type = TypeFunction None (Some nm),
     fiber_debugSource = Some \<lparr>raw_fileName = Some (''src/'' @ nm @ ''.tsx''),
        raw_lineNumber = Some (int line), raw_columnNumber = None\<rparr>,
     memoizedProps = Some [(''label'', JStr ''Save''), (''onClick'', JFunction)], fiber_return = r\<rparr>"

text \<open>A host \<^verbatim>\<open>div\<close> rendered by \<^verbatim>\<open>Icon\<close>, inside \<^verbatim>\<open>Button\<close>, inside \<^verbatim>\<open>Toolbar\<close>.\<close>

definition fibersB :: fibers where
  "fibersB n = (if n = 0 then hostFiber ''div'' (Some 1)
                else if n = 1 then componentFiber ''Icon'' 7 (Some 2)
                else if n = 2 then componentFiber ''Button'' 12 (Some 3)
                else componentFiber ''Toolbar'' 0 None)"

definition plainElement :: "string \<Rightarrow> nat option \<Rightarrow> nat list \<Rightarrow> element" where
  "plainElement tg p cs = \<lparr>nodeName = tg, attributes = [], className = Some [],
     parentElement = p, children = cs, innerText = Some [], innerHTML = [],
     ownKeys = [], computedStyle = (\<lambda>prop. [])\<rparr>"

definition docB :: document where
  "docB = \<lparr>elems = (\<lambda>n. if n = 0 then plainElement ''HTML'' None [1]
                        else if n = 1 then plainElement ''BODY'' (Some 0) [2]
                        else (plainElement ''DIV'' (Some 1) [])
                               \<lparr>ownKeys := [(''__reactFiber$k3'', Some 0)]\<rparr>),
            body = Some 1\<rparr>"

text \<open>\<^verbatim>\<open><body><button id="save-btn">Save</button></body>\<close>, with no link to an instance
  tree.\<close>

definition docA :: document where
  "docA = \<lparr>elems = (\<lambda>n. if n = 0 then plainElement ''HTML'' None [1]
                        else if n = 1 then plainElement ''BODY'' (Some 0) [2]
                        else (plainElement ''BUTTON'' (Some 1) [])
                               \<lparr>attributes := [(''id'', ''save-btn'')],
                                innerText := Some ''Save'', innerHTML := ''Save''\<rparr>),
            body = Some 1\<rparr>"

text \<open>The request of scenario A answered by the background context of tab 1, the script
  having found the button.\<close>

definition transportA :: "string \<Rightarrow> sendMessageCall" where
  "transportA sel =
     CallbackWith \<lparr>lastError = None,
      sent_response = Some (handleGetReactInfo (Some 1)
        (ExecResults (Some (getReactInfo docA (\<lambda>n. hostFiber [] None) (Some 2)))))\<rparr>"

text \<open>A body with three \<^verbatim>\<open>div\<close>s (2, 3, 4); the second has the id \<^verbatim>\<open>x\<close> and one \<^verbatim>\<open>span\<close> (5);
  the third has three \<^verbatim>\<open>span\<close>s (6, 7, 8).\<close>

definition docC :: document where
  "docC = \<lparr>elems = (\<lambda>n. if n = 0 then plainElement ''HTML'' None [1]
                        else if n = 1 then plainElement ''BODY'' (Some 0) [2, 3, 4]
                        else if n = 2 then plainElement ''DIV'' (Some 1) []
                        else if n = 3 then (plainElement ''DIV'' (Some 1) [5])
                                             \<lparr>attributes := [(''id'', ''x'')]\<rparr>
                        else if n = 4 then plainElement ''DIV'' (Some 1) [6, 7, 8]
                        else if n = 5 then plainElement ''SPAN'' (Some 3) []
                        else plainElement ''SPAN'' (Some 4) []),
            body = Some 1\<rparr>"

text \<open>An element that carries an attribute of the engine's own instrumentation.\<close>

definition markedElement :: element where
  "markedElement = (plainElement ''DIV'' None [])
     \<lparr>attributes := [(''class'', ''card''), (''data-element-agent-id'', ''7'')]\<rparr>"

text \<open>A fiber whose only prop has the value \<^verbatim>\<open>undefined\<close>, as \<^verbatim>\<open><div title={undefined}/>\<close>
  gives, and one with a prop of every kind.\<close>

definition undefinedPropFiber :: fiber where
  "undefinedPropFiber = (hostFiber ''div'' None)\<lparr>memoizedProps := Some [(''title'', JUndefined)]\<rparr>"

definition mixedPropsFiber :: fiber where
  "mixedPropsFiber = (hostFiber ''div'' None)\<lparr>memoizedProps :=
     Some [(''children'', JStr ''x''), (''onClick'', JFunction),
           (''items'', JArray [JNum 1, JNum 2]), (''style'', JObject []),
           (''title'', JStr (replicate 150 (CHR ''a''))), (''count'', JNum 3),
           (''hidden'', JUndefined), (''value'', JNull)]\<rparr>"





section \<open>Properties of the component-tree walker\<close>

lemma treeWalk_None [simp]: "treeWalk fs None depth tree = (tree, depth)"
  by (simp add: treeWalk.simps)

lemma treeWalk_Some [simp]:
  "treeWalk fs (Some f) depth tree =
     (if depth < 30 then treeWalk fs (fiber_return (fs f)) (depth + 1) (pushHop (fs f) depth tree)
      else (tree, depth))"
  by (simp add: treeWalk.simps [of fs "Some f"])

lemma getDebugSource_fileName: "getDebugSource fb = Some s \<Longrightarrow> fileName s \<noteq> []"
  by (auto simp: getDebugSource_def truthy_def split: option.splits if_splits)

lemma pushHop_inv:
  assumes "\<forall>e\<in>set tree. retained e \<and> sourced e"
  shows "\<forall>e\<in>set (pushHop fb depth tree). retained e \<and> sourced e"
  using assms
  by (auto simp: pushHop_def Let_def retained_def sourced_def truthy_def
            dest: getDebugSource_fileName split: option.splits)

lemma pushHop_length: "length (pushHop fb depth tree) \<le> length tree + 1"
  by (simp add: pushHop_def Let_def)

text \<open>The loop invariant: the counter stays within 30, every hop adds at most one entry, and
  every entry is retained and sourced.\<close>

lemma treeWalk_inv:
  assumes "treeWalk fs fiber depth tree = (t, k)" and "depth \<le> 30"
    and "\<forall>e\<in>set tree. retained e \<and> sourced e"
  shows "k \<le> 30 \<and> depth \<le> k \<and> length t + depth \<le> length tree + k
         \<and> (\<forall>e\<in>set t. retained e \<and> sourced e)"
  using assms
proof (induction fs fiber depth tree rule: treeWalk.induct)
  case (1 fs fiber depth tree)
  show ?case
  proof (cases fiber)
    case None
    with 1 show ?thesis by simp
  next
    case (Some f)
    show ?thesis
    proof (cases "depth < 30")
      case False
      with Some 1 show ?thesis by simp
    next
      case True
      have step: "treeWalk fs (fiber_return (fs f)) (depth + 1) (pushHop (fs f) depth tree) = (t, k)"
        using "1.prems"(1) Some True by simp
      have "k \<le> 30 \<and> depth + 1 \<le> k
         \<and> length t + (depth + 1) \<le> length (pushHop (fs f) depth tree) + k
         \<and> (\<forall>e\<in>set t. retained e \<and> sourced e)"
        using "1.IH" [OF Some True step _ pushHop_inv [OF "1.prems"(3)]] True by simp
      with pushHop_length [of "fs f" depth tree] show ?thesis by auto
    qed
  qed
qed

lemma treeWalk_entries:
  "\<forall>e\<in>set (fst (treeWalk fs start 0 [])). retained e \<and> sourced e"
  using treeWalk_inv [of fs start 0 "[]" "fst (treeWalk fs start 0 [])" "snd (treeWalk fs start 0 [])"]
  by simp

lemma beginsUpper_iff: "beginsUpper s \<longleftrightarrow> (\<exists>c cs. s = c # cs \<and> c \<in> set upperLetters)"
  by (cases s) (simp_all add: beginsUpper_def)

lemma scenarioB_tree:
  "map c_name (fst (treeWalk fibersB (Some 0) 0 [])) = [''div'', ''Icon'', ''Button'', ''Toolbar'']"
  by (simp add: fibersB_def hostFiber_def componentFiber_def pushHop_def getComponentDisplayName_def
      truthy_def startsWith_def Let_def)

lemma scenarioB_info:
  "r_componentHierarchy (getReactInfo docB fibersB (Some 2)) = Some [''Icon'', ''Button'', ''Toolbar'']
   \<and> r_componentName (getReactInfo docB fibersB (Some 2)) = Some ''Icon''
   \<and> r_fullReactTree (getReactInfo docB fibersB (Some 2))
       = Some [''div'', ''Icon'', ''Button'', ''Toolbar'']"
  by (simp add: getReactInfo_def docB_def plainElement_def getReactFiber_def componentInfo_def
      fibersB_def hostFiber_def componentFiber_def pushHop_def getComponentDisplayName_def
      truthy_def startsWith_def beginsUpper_def upperLetters_def Let_def)

text \<open>
  C7. From every starting handle the walk visits at most 30 hops (its counter ends at 30 or
  below), it lists at most one entry per hop, and no entry of its list, nor of the
  \<^verbatim>\<open>fullReactTree\<close> it returns, has a name that is empty, begins with an underscore or is
  \<^verbatim>\<open>Fragment\<close>.
\<close>

theorem walk_bounded_and_filtered:
  assumes "treeWalk fs start 0 [] = (tree, hops)"
  shows "hops \<le> 30 \<and> length tree \<le> hops
         \<and> (\<forall>e\<in>set tree. c_name e \<noteq> [] \<and> \<not> startsWith (c_name e) ''_'' \<and> c_name e \<noteq> ''Fragment'')
         \<and> r_fullReactTree (componentInfo tree) = Some (map c_name tree)"
  using treeWalk_inv [OF assms] by (auto simp: retained_def componentInfo_def Let_def)

theorem walk_bounded_and_filtered_witness:
  "\<exists>tree hops. treeWalk fibersB (Some 0) 0 [] = (tree, hops) \<and> hops \<le> 30 \<and> length tree \<le> hops
         \<and> (\<forall>e\<in>set tree. c_name e \<noteq> [] \<and> \<not> startsWith (c_name e) ''_'' \<and> c_name e \<noteq> ''Fragment'')
         \<and> r_fullReactTree (componentInfo tree) = Some [''div'', ''Icon'', ''Button'', ''Toolbar'']"
proof -
  obtain tree hops where w: "treeWalk fibersB (Some 0) 0 [] = (tree, hops)"
    by (cases "treeWalk fibersB (Some 0) 0 []") blast
  have "map c_name tree = [''div'', ''Icon'', ''Button'', ''Toolbar'']"
    using scenarioB_tree w by simp
  with walk_bounded_and_filtered [OF w] w show ?thesis by auto
qed

text \<open>
  C2 (amended). When the hops from the node's handle derive the names \<^verbatim>\<open>div\<close>, \<^verbatim>\<open>Icon\<close>,
  \<^verbatim>\<open>Button\<close>, \<^verbatim>\<open>Toolbar\<close> (nearest first), the walker returns the full tree with these four
  names, \<^verbatim>\<open>componentHierarchy = ["Icon", "Button", "Toolbar"]\<close> and
  \<^verbatim>\<open>componentName = "Icon"\<close>: \<^verbatim>\<open>Icon\<close> begins with an upper-case letter too. A hop is classified
  as a user component iff its name begins with one of the letters A to Z.
\<close>

theorem scenarioB_chain:
  assumes "getReactFiber (elems d el) = Some f1"
    and "getComponentDisplayName (fs f1) = Some ''div''" and "fiber_return (fs f1) = Some f2"
    and "getComponentDisplayName (fs f2) = Some ''Icon''" and "fiber_return (fs f2) = Some f3"
    and "getComponentDisplayName (fs f3) = Some ''Button''" and "fiber_return (fs f3) = Some f4"
    and "getComponentDisplayName (fs f4) = Some ''Toolbar''" and "fiber_return (fs f4) = None"
  shows "r_componentHierarchy (getReactInfo d fs (Some el)) = Some [''Icon'', ''Button'', ''Toolbar'']
       \<and> r_componentName (getReactInfo d fs (Some el)) = Some ''Icon''
       \<and> r_fullReactTree (getReactInfo d fs (Some el)) = Some [''div'', ''Icon'', ''Button'', ''Toolbar'']
       \<and> (\<forall>e\<in>set (fst (treeWalk fs (Some f1) 0 [])).
            isUserComponent e \<longleftrightarrow> (\<exists>c cs. c_name e = c # cs \<and> c \<in> set upperLetters))"
proof -
  have a: "\<forall>e\<in>set (fst (treeWalk fs (Some f1) 0 [])).
            isUserComponent e \<longleftrightarrow> (\<exists>c cs. c_name e = c # cs \<and> c \<in> set upperLetters)"
    using treeWalk_entries [of fs "Some f1"] by (simp add: sourced_def beginsUpper_iff)
  have b: "map c_name (fst (treeWalk fs (Some f1) 0 [])) = [''div'', ''Icon'', ''Button'', ''Toolbar'']"
    and c: "map c_name (filter isUserComponent (fst (treeWalk fs (Some f1) 0 [])))
              = [''Icon'', ''Button'', ''Toolbar'']"
    using assms(2-9)
    by (simp_all add: pushHop_def truthy_def startsWith_def Let_def beginsUpper_def upperLetters_def)
  have g: "getReactInfo d fs (Some el) = componentInfo (fst (treeWalk fs (Some f1) 0 []))"
    using assms(1) by (simp add: getReactInfo_def Let_def del: treeWalk_Some)
  have h: "r_componentHierarchy (getReactInfo d fs (Some el)) = Some [''Icon'', ''Button'', ''Toolbar'']"
    unfolding g using c by (simp add: componentInfo_def Let_def del: treeWalk_Some)
  have n: "r_componentName (getReactInfo d fs (Some el)) = Some ''Icon''"
    unfolding g using c
    by (cases "filter isUserComponent (fst (treeWalk fs (Some f1) 0 []))")
       (auto simp add: componentInfo_def Let_def simp del: treeWalk_Some)
  have t: "r_fullReactTree (getReactInfo d fs (Some el)) = Some [''div'', ''Icon'', ''Button'', ''Toolbar'']"
    unfolding g using b by (simp add: componentInfo_def Let_def del: treeWalk_Some)
  from h n t a show ?thesis by blast
qed

lemma fibersB_chain:
  "getReactFiber (elems docB 2) = Some 0
   \<and> getComponentDisplayName (fibersB 0) = Some ''div'' \<and> fiber_return (fibersB 0) = Some 1
   \<and> getComponentDisplayName (fibersB 1) = Some ''Icon'' \<and> fiber_return (fibersB 1) = Some 2
   \<and> getComponentDisplayName (fibersB 2) = Some ''Button'' \<and> fiber_return (fibersB 2) = Some 3
   \<and> getComponentDisplayName (fibersB 3) = Some ''Toolbar'' \<and> fiber_return (fibersB 3) = None"
  by (simp add: docB_def plainElement_def getReactFiber_def startsWith_def fibersB_def
      hostFiber_def componentFiber_def getComponentDisplayName_def truthy_def)

lemma scenarioB_classes:
  "map isUserComponent (fst (treeWalk fibersB (Some 0) 0 [])) = [False, True, True, True]"
  by (simp add: fibersB_def hostFiber_def componentFiber_def pushHop_def getComponentDisplayName_def
      truthy_def startsWith_def Let_def beginsUpper_def upperLetters_def)

theorem scenarioB_chain_witness:
  "getReactFiber (elems docB 2) = Some 0
   \<and> getComponentDisplayName (fibersB 0) = Some ''div'' \<and> fiber_return (fibersB 0) = Some 1
   \<and> getComponentDisplayName (fibersB 1) = Some ''Icon'' \<and> fiber_return (fibersB 1) = Some 2
   \<and> getComponentDisplayName (fibersB 2) = Some ''Button'' \<and> fiber_return (fibersB 2) = Some 3
   \<and> getComponentDisplayName (fibersB 3) = Some ''Toolbar'' \<and> fiber_return (fibersB 3) = None
   \<and> r_componentHierarchy (getReactInfo docB fibersB (Some 2)) = Some [''Icon'', ''Button'', ''Toolbar'']
   \<and> r_componentName (getReactInfo docB fibersB (Some 2)) = Some ''Icon''
   \<and> r_fullReactTree (getReactInfo docB fibersB (Some 2))
        = Some [''div'', ''Icon'', ''Button'', ''Toolbar'']
   \<and> map isUserComponent (fst (treeWalk fibersB (Some 0) 0 [])) = [False, True, True, True]"
  using fibersB_chain scenarioB_classes
    scenarioB_chain [of docB 2 0 fibersB 1 2 3]
  by blast

text \<open>The same chain against the values the claim expects.\<close>

theorem scenarioB_counterexample:
  "r_fullReactTree (getReactInfo docB fibersB (Some 2)) = Some [''div'', ''Icon'', ''Button'', ''Toolbar'']
   \<and> r_componentHierarchy (getReactInfo docB fibersB (Some 2)) \<noteq> Some [''Button'', ''Toolbar'']
   \<and> r_componentName (getReactInfo docB fibersB (Some 2)) \<noteq> Some ''Button''"
  using scenarioB_info by simp

section \<open>Properties of the value sanitizer\<close>

lemma update_fresh: "k \<notin> fst ` set al \<Longrightarrow> AList.update k v al = al @ [(k, v)]"
  by (induction al) auto

lemma safePropsStep_rule:
  "safePropsStep safe (k, v) =
     (if k \<in> set skip \<or> v = JUndefined then safe else AList.update k (sanitizeValue_spec v) safe)"
  by (cases v) (simp_all add: safePropsStep_def Let_def)

lemma foldl_safePropsStep:
  assumes "distinct (map fst props)" and "fst ` set props \<inter> fst ` set acc = {}"
  shows "foldl safePropsStep acc props =
           acc @ map (\<lambda>kv. (fst kv, sanitizeValue_spec (snd kv)))
                   (filter (\<lambda>kv. fst kv \<notin> set skip) (filter (\<lambda>kv. snd kv \<noteq> JUndefined) props))"
  using assms
proof (induction props arbitrary: acc)
  case Nil
  then show ?case by simp
next
  case (Cons kv props)
  obtain k v where kv: "kv = (k, v)" by (cases kv)
  have fresh: "k \<notin> fst ` set acc" using Cons.prems(2) kv by auto
  have d: "distinct (map fst props)" and knot: "k \<notin> fst ` set props"
    using Cons.prems(1) kv by auto
  show ?case
  proof (cases "k \<in> set skip \<or> v = JUndefined")
    case True
    then have "safePropsStep acc kv = acc" by (simp add: kv safePropsStep_rule)
    moreover have "fst ` set props \<inter> fst ` set acc = {}" using Cons.prems(2) by auto
    ultimately show ?thesis using Cons.IH [OF d] True kv by auto
  next
    case False
    then have s: "safePropsStep acc kv = acc @ [(k, sanitizeValue_spec v)]"
      by (simp add: kv safePropsStep_rule update_fresh [OF fresh])
    have "fst ` set props \<inter> fst ` set (acc @ [(k, sanitizeValue_spec v)]) = {}"
      using Cons.prems(2) knot by auto
    from Cons.IH [OF d this] s False kv show ?thesis by simp
  qed
qed

text \<open>
  C5 (amended). On a props record (its keys distinct, as an object's are) the sanitizer skips
  the keys \<^verbatim>\<open>children\<close>, \<^verbatim>\<open>ref\<close>, \<^verbatim>\<open>key\<close>, \<^verbatim>\<open>__self\<close>, \<^verbatim>\<open>__source\<close> and every key whose value
  is \<^verbatim>\<open>undefined\<close>, and maps each other key by the ordered rules: a function to
  \<^verbatim>\<open>"[Function]"\<close>, an array to \<^verbatim>\<open>"[Array(n)]"\<close> with its length, any other non-null object to
  \<^verbatim>\<open>"[Object]"\<close>, a string longer than 100 characters to its first 100 characters and
  \<^verbatim>\<open>"..."\<close>, every other value to itself. The result is absent, never an empty record,
  when no prop is left or the fiber has no props.
\<close>

theorem getSafeProps_rules:
  assumes "case memoizedProps fb of None \<Rightarrow> True | Some props \<Rightarrow> distinct (map fst props)"
  shows "getSafeProps fb =
           (case memoizedProps fb of
              None \<Rightarrow> None
            | Some props \<Rightarrow> sanitize_spec (filter (\<lambda>kv. snd kv \<noteq> JUndefined) props))
         \<and> getSafeProps fb \<noteq> Some []"
proof (cases "memoizedProps fb")
  case None
  then show ?thesis by (simp add: getSafeProps_def)
next
  case (Some props)
  with assms have d: "distinct (map fst props)" by simp
  have "foldl safePropsStep [] props =
          map (\<lambda>kv. (fst kv, sanitizeValue_spec (snd kv)))
            (filter (\<lambda>kv. fst kv \<notin> set skip) (filter (\<lambda>kv. snd kv \<noteq> JUndefined) props))"
    using foldl_safePropsStep [OF d, of "[]"] by simp
  then show ?thesis
    using Some by (auto simp: getSafeProps_def sanitize_spec_def Let_def)
qed

lemma mixedProps_eval:
  "getSafeProps mixedPropsFiber =
     Some [(''onClick'', JStr ''[Function]''), (''items'', JStr ''[Array(2)]''),
           (''style'', JStr ''[Object]''), (''title'', JStr (replicate 100 (CHR ''a'') @ ''...'')),
           (''count'', JNum 3), (''value'', JNull)]"
  by (simp add: getSafeProps_def mixedPropsFiber_def hostFiber_def safePropsStep_def skip_def
      Let_def show_nat.simps digitChar_def)

theorem getSafeProps_rules_witness:
  "getSafeProps mixedPropsFiber =
     Some [(''onClick'', JStr ''[Function]''), (''items'', JStr ''[Array(2)]''),
           (''style'', JStr ''[Object]''), (''title'', JStr (replicate 100 (CHR ''a'') @ ''...'')),
           (''count'', JNum 3), (''value'', JNull)]
   \<and> getSafeProps mixedPropsFiber =
       (case memoizedProps mixedPropsFiber of
              None \<Rightarrow> None
            | Some props \<Rightarrow> sanitize_spec (filter (\<lambda>kv. snd kv \<noteq> JUndefined) props))
   \<and> getSafeProps mixedPropsFiber \<noteq> Some []"
proof -
  have h: "case memoizedProps mixedPropsFiber of None \<Rightarrow> True
           | Some props \<Rightarrow> distinct (map fst props)"
    by (simp add: mixedPropsFiber_def hostFiber_def)
  show ?thesis using getSafeProps_rules [OF h] mixedProps_eval by blast
qed

text \<open>A prop whose value is \<^verbatim>\<open>undefined\<close> is not passed through: the rules as worded keep
  the key, the code drops it and returns nothing.\<close>

theorem getSafeProps_undefined_counterexample:
  "memoizedProps undefinedPropFiber = Some [(''title'', JUndefined)]
   \<and> sanitize_spec [(''title'', JUndefined)] = Some [(''title'', JUndefined)]
   \<and> getSafeProps undefinedPropFiber = None"
  by (simp add: undefinedPropFiber_def hostFiber_def getSafeProps_def safePropsStep_def
      sanitize_spec_def skip_def Let_def)

section \<open>The identity the walker reports\<close>

lemma getSafeProps_on_record:
  assumes "memoizedProps fb = Some props" and "distinct (map fst props)"
  shows "getSafeProps fb = sanitize_spec (filter (\<lambda>kv. snd kv \<noteq> JUndefined) props)"
proof -
  have "foldl safePropsStep [] props =
          map (\<lambda>kv. (fst kv, sanitizeValue_spec (snd kv)))
            (filter (\<lambda>kv. fst kv \<notin> set skip) (filter (\<lambda>kv. snd kv \<noteq> JUndefined) props))"
    using foldl_safePropsStep [OF assms(2), of "[]"] by simp
  then show ?thesis
    using assms(1) by (auto simp: getSafeProps_def sanitize_spec_def Let_def)
qed

lemma pushHop_append: "pushHop fb k tree = tree @ pushHop fb k []"
  by (simp add: pushHop_def Let_def)

lemma hopChain_None [simp]: "hopChain fs None n = []"
  by (cases n) simp_all

lemma treeWalk_hops:
  "depth \<le> 30 \<Longrightarrow>
   treeWalk fs cur depth tree =
     (tree @ concat (map (\<lambda>kf. pushHop (fs (snd kf)) (fst kf) [])
                       (enumerate depth (hopChain fs cur (30 - depth)))),
      depth + length (hopChain fs cur (30 - depth)))"
proof (induction fs cur depth tree rule: treeWalk.induct)
  case (1 fs fiber depth tree)
  show ?case
  proof (cases fiber)
    case None
    then show ?thesis by simp
  next
    case (Some f)
    show ?thesis
    proof (cases "depth < 30")
      case False
      with "1.prems" have "30 - depth = 0" by simp
      with False Some show ?thesis by simp
    next
      case True
      then obtain m where m: "30 - depth = Suc m" "30 - (depth + 1) = m"
        by (cases "30 - depth") auto
      have ih: "treeWalk fs (fiber_return (fs f)) (depth + 1) (pushHop (fs f) depth tree) =
          (pushHop (fs f) depth tree @ concat (map (\<lambda>kf. pushHop (fs (snd kf)) (fst kf) [])
                       (enumerate (depth + 1) (hopChain fs (fiber_return (fs f)) m))),
           depth + 1 + length (hopChain fs (fiber_return (fs f)) m))"
        using "1.IH" [OF Some True] True m by simp
      show ?thesis
        using ih Some True m pushHop_append [of "fs f" depth tree] by simp
    qed
  qed
qed

lemma filter_pushHop:
  "filter isUserComponent (pushHop fb k []) =
     (if userHop fb
      then [\<lparr>c_name = the (getComponentDisplayName fb), c_source = getDebugSource fb,
              c_props = (if k < 5 then getSafeProps fb else None), isUserComponent = True\<rparr>]
      else [])"
  by (auto simp: pushHop_def userHop_def truthy_def Let_def split: option.splits)

lemma filter_walk:
  "filter isUserComponent (concat (map (\<lambda>kf. pushHop (fs (snd kf)) (fst kf) []) xs)) =
     map (\<lambda>kf. \<lparr>c_name = the (getComponentDisplayName (fs (snd kf))),
                 c_source = getDebugSource (fs (snd kf)),
                 c_props = (if fst kf < 5 then getSafeProps (fs (snd kf)) else None),
                 isUserComponent = True\<rparr>)
       (filter (\<lambda>kf. userHop (fs (snd kf))) xs)"
  by (induction xs) (simp_all add: filter_pushHop)

lemma userComponents_of_walk:
  "filter isUserComponent (fst (treeWalk fs start 0 [])) =
     map (\<lambda>kf. \<lparr>c_name = the (getComponentDisplayName (fs (snd kf))),
                 c_source = getDebugSource (fs (snd kf)),
                 c_props = (if fst kf < 5 then getSafeProps (fs (snd kf)) else None),
                 isUserComponent = True\<rparr>)
       (userHops fs start)"
  using treeWalk_hops [of 0 fs start "[]"] filter_walk [of fs "enumerate 0 (hopChain fs start 30)"]
  by (simp add: userHops_def del: treeWalk_Some)

lemma getDebugSource_recorded: "getDebugSource fb = recordedSource fb"
  by (auto simp: getDebugSource_def recordedSource_def truthy_def split: option.splits)

lemma recordedSource_fileName: "recordedSource fb = Some s \<Longrightarrow> fileName s \<noteq> []"
  by (auto simp: recordedSource_def split: option.splits if_splits)

lemma getReactInfo_start:
  assumes "r_componentHierarchy (getReactInfo d fs element) = Some ns"
  shows "\<exists>el. element = Some el
     \<and> getReactInfo d fs element =
         componentInfo (fst (treeWalk fs
           (if getReactFiber (elems d el) = None
            then findFiber d (parentElement (elems d el)) (getReactFiber (elems d el)) 0
            else getReactFiber (elems d el)) 0 []))"
  using assms
  by (cases element) (auto simp: getReactInfo_def emptyInfo_def Let_def split: if_splits)

text \<open>
  C3. Whenever the walker returns a non-empty \<^verbatim>\<open>componentHierarchy\<close>, the hierarchy lists the
  names of the user components among the first 30 hops from the located handle, nearest first,
  and the first of them, the fiber \<open>f\<close> at hop \<open>k\<close>, gives every top-level field:
  \<^verbatim>\<open>componentName\<close> is its derived name, \<^verbatim>\<open>sourceFile\<close>, \<^verbatim>\<open>sourceLine\<close> and \<^verbatim>\<open>sourceColumn\<close>
  are those of the debug source recorded on \<open>f\<close> (a line or column of 0 is reported as
  absent), and \<^verbatim>\<open>props\<close> are the sanitized props of \<open>f\<close> when \<open>k\<close> is below 5 and absent
  otherwise. \<^verbatim>\<open>componentStack\<close> is the first 10 user components in that order, each with its
  name and the debug source recorded on its fiber.
\<close>

theorem identity_from_first_user_component:
  assumes "r = getReactInfo d fs element"
    and "r_componentHierarchy r = Some (n # ns)"
  shows "\<exists>el start k f rest.
           element = Some el
         \<and> start = (if getReactFiber (elems d el) = None
                     then findFiber d (parentElement (elems d el)) (getReactFiber (elems d el)) 0
                     else getReactFiber (elems d el))
         \<and> userHops fs start = (k, f) # rest
         \<and> n # ns = map (\<lambda>kf. the (getComponentDisplayName (fs (snd kf)))) (userHops fs start)
         \<and> getComponentDisplayName (fs f) = Some n
         \<and> r_componentName r = Some n
         \<and> r_sourceFile r = map_option fileName (recordedSource (fs f))
         \<and> r_sourceLine r = numOrUndefined (map_option lineNumber (recordedSource (fs f)))
         \<and> r_sourceColumn r = numOrUndefined (Option.bind (recordedSource (fs f)) columnNumber)
         \<and> r_props r = (if k < 5 then getSafeProps (fs f) else None)
         \<and> (k < 5 \<and> memoizedProps (fs f) = None \<longrightarrow> r_props r = None)
         \<and> (\<forall>props. k < 5 \<and> memoizedProps (fs f) = Some props \<and> distinct (map fst props) \<longrightarrow>
               r_props r = sanitize_spec (filter (\<lambda>kv. snd kv \<noteq> JUndefined) props))
         \<and> r_componentStack r
             = Some (map (\<lambda>kf. \<lparr>s_name = the (getComponentDisplayName (fs (snd kf))),
                                 s_source = recordedSource (fs (snd kf))\<rparr>)
                       (take 10 (userHops fs start)))"
proof -
  obtain el where el: "element = Some el"
    and r: "r = componentInfo (fst (treeWalk fs
           (if getReactFiber (elems d el) = None
            then findFiber d (parentElement (elems d el)) (getReactFiber (elems d el)) 0
            else getReactFiber (elems d el)) 0 []))"
    using getReactInfo_start assms by blast
  define start where "start = (if getReactFiber (elems d el) = None
            then findFiber d (parentElement (elems d el)) (getReactFiber (elems d el)) 0
            else getReactFiber (elems d el))"
  define entry where "entry = (\<lambda>kf :: nat \<times> nat.
     \<lparr>c_name = the (getComponentDisplayName (fs (snd kf))),
      c_source = getDebugSource (fs (snd kf)),
      c_props = (if fst kf < 5 then getSafeProps (fs (snd kf)) else None),
      isUserComponent = True\<rparr>)"
  have r': "r = componentInfo (fst (treeWalk fs start 0 []))"
    using r by (simp only: start_def)
  have users: "filter isUserComponent (fst (treeWalk fs start 0 [])) = map entry (userHops fs start)"
    unfolding entry_def by (rule userComponents_of_walk)
  have hier: "r_componentHierarchy r = Some (map (c_name \<circ> entry) (userHops fs start))"
    by (simp add: r' componentInfo_def Let_def users del: treeWalk_Some)
  with assms(2) have names: "n # ns = map (c_name \<circ> entry) (userHops fs start)"
    by simp
  then obtain kf rest where kfr: "userHops fs start = kf # rest"
    by (cases "userHops fs start") auto
  obtain k f where kf: "kf = (k, f)" by (cases kf)
  have "(k, f) \<in> set (userHops fs start)" using kfr kf by simp
  then have uh: "userHop (fs f)" by (auto simp: userHops_def)
  then obtain nm where nm: "getComponentDisplayName (fs f) = Some nm" and nmne: "nm \<noteq> []"
    by (auto simp: userHop_def split: option.splits)
  have n: "n = nm" using names kfr kf nm by (simp add: entry_def)
  have first: "filter isUserComponent (fst (treeWalk fs start 0 [])) = entry (k, f) # map entry rest"
    using users kfr kf by simp
  have src: "c_source (entry (k, f)) = recordedSource (fs f)"
    by (simp add: entry_def getDebugSource_recorded)
  have f1: "n # ns = map (\<lambda>kf. the (getComponentDisplayName (fs (snd kf)))) (userHops fs start)"
    using names by (simp add: entry_def comp_def)
  have f2: "getComponentDisplayName (fs f) = Some n" using nm n by simp
  have f3: "r_componentName r = Some n"
    using first nm nmne n by (simp add: r' componentInfo_def Let_def entry_def del: treeWalk_Some)
  have f4: "r_sourceFile r = map_option fileName (recordedSource (fs f))"
    using first src recordedSource_fileName [of "fs f"]
    by (cases "recordedSource (fs f)")
       (simp_all add: r' componentInfo_def Let_def del: treeWalk_Some)
  have f5: "r_sourceLine r = numOrUndefined (map_option lineNumber (recordedSource (fs f)))"
    using first src
    by (cases "recordedSource (fs f)")
       (simp_all add: r' componentInfo_def Let_def numOrUndefined_def del: treeWalk_Some)
  have f6: "r_sourceColumn r = numOrUndefined (Option.bind (recordedSource (fs f)) columnNumber)"
    using first src
    by (cases "recordedSource (fs f)")
       (simp_all add: r' componentInfo_def Let_def numOrUndefined_def del: treeWalk_Some
          split: option.splits)
  have f7: "r_props r = (if k < 5 then getSafeProps (fs f) else None)"
    using first by (simp add: r' componentInfo_def Let_def entry_def del: treeWalk_Some)
  have f8: "k < 5 \<and> memoizedProps (fs f) = None \<longrightarrow> r_props r = None"
    using f7 by (simp add: getSafeProps_def)
  have f9: "\<forall>props. k < 5 \<and> memoizedProps (fs f) = Some props \<and> distinct (map fst props) \<longrightarrow>
               r_props r = sanitize_spec (filter (\<lambda>kv. snd kv \<noteq> JUndefined) props)"
    using f7 getSafeProps_on_record [of "fs f"] by simp
  have f10: "r_componentStack r
             = Some (map (\<lambda>kf. \<lparr>s_name = the (getComponentDisplayName (fs (snd kf))),
                                 s_source = recordedSource (fs (snd kf))\<rparr>)
                       (take 10 (userHops fs start)))"
    by (simp add: r' componentInfo_def Let_def users take_map entry_def comp_def
        getDebugSource_recorded del: treeWalk_Some)
  have f0: "userHops fs start = (k, f) # rest" using kfr kf by simp
  show ?thesis
    by (intro exI conjI) (rule el start_def f0 f1 f2 f3 f4 f5 f6 f7 f8 f9 f10)+
qed

lemma scenarioB_userHops: "userHops fibersB (Some 0) = [(1, 1), (2, 2), (3, 3)]"
  by code_simp

lemma scenarioB_start:
  "(if getReactFiber (elems docB 2) = None
    then findFiber docB (parentElement (elems docB 2)) (getReactFiber (elems docB 2)) 0
    else getReactFiber (elems docB 2)) = Some 0"
  by (simp add: docB_def plainElement_def getReactFiber_def startsWith_def)

lemma scenarioB_identity:
  "r_sourceFile (getReactInfo docB fibersB (Some 2)) = Some ''src/Icon.tsx''
   \<and> r_sourceLine (getReactInfo docB fibersB (Some 2)) = Some 7
   \<and> r_sourceColumn (getReactInfo docB fibersB (Some 2)) = None
   \<and> r_props (getReactInfo docB fibersB (Some 2))
       = Some [(''label'', JStr ''Save''), (''onClick'', JStr ''[Function]'')]
   \<and> r_componentStack (getReactInfo docB fibersB (Some 2))
       = Some [\<lparr>s_name = ''Icon'',
                 s_source = Some \<lparr>fileName = ''src/Icon.tsx'', lineNumber = 7, columnNumber = None\<rparr>\<rparr>,
               \<lparr>s_name = ''Button'',
                 s_source = Some \<lparr>fileName = ''src/Button.tsx'', lineNumber = 12, columnNumber = None\<rparr>\<rparr>,
               \<lparr>s_name = ''Toolbar'',
                 s_source = Some \<lparr>fileName = ''src/Toolbar.tsx'', lineNumber = 0, columnNumber = None\<rparr>\<rparr>]"
  by (simp add: getReactInfo_def docB_def plainElement_def getReactFiber_def componentInfo_def
      fibersB_def hostFiber_def componentFiber_def pushHop_def getComponentDisplayName_def
      getDebugSource_def getSafeProps_def safePropsStep_def skip_def
      truthy_def startsWith_def beginsUpper_def upperLetters_def Let_def)

theorem identity_from_first_user_component_witness:
  "r_componentHierarchy (getReactInfo docB fibersB (Some 2)) = Some (''Icon'' # [''Button'', ''Toolbar''])
   \<and> userHops fibersB (Some 0) = [(1, 1), (2, 2), (3, 3)]
   \<and> recordedSource (fibersB 1)
        = Some \<lparr>fileName = ''src/Icon.tsx'', lineNumber = 7, columnNumber = None\<rparr>
   \<and> r_componentName (getReactInfo docB fibersB (Some 2)) = Some ''Icon''
   \<and> r_sourceFile (getReactInfo docB fibersB (Some 2)) = Some ''src/Icon.tsx''
   \<and> r_sourceLine (getReactInfo docB fibersB (Some 2)) = Some 7
   \<and> r_sourceColumn (getReactInfo docB fibersB (Some 2)) = None
   \<and> r_props (getReactInfo docB fibersB (Some 2))
       = Some [(''label'', JStr ''Save''), (''onClick'', JStr ''[Function]'')]
   \<and> (\<exists>el k f rest.
           Some 2 = Some el
         \<and> userHops fibersB (Some 0) = (k, f) # rest
         \<and> getComponentDisplayName (fibersB f) = Some ''Icon''
         \<and> r_sourceFile (getReactInfo docB fibersB (Some 2))
              = map_option fileName (recordedSource (fibersB f))
         \<and> r_sourceLine (getReactInfo docB fibersB (Some 2))
              = numOrUndefined (map_option lineNumber (recordedSource (fibersB f)))
         \<and> r_props (getReactInfo docB fibersB (Some 2))
              = (if k < 5 then getSafeProps (fibersB f) else None)
         \<and> r_componentStack (getReactInfo docB fibersB (Some 2))
             = Some (map (\<lambda>kf. \<lparr>s_name = the (getComponentDisplayName (fibersB (snd kf))),
                                 s_source = recordedSource (fibersB (snd kf))\<rparr>)
                       (take 10 (userHops fibersB (Some 0)))))"
proof -
  have h: "r_componentHierarchy (getReactInfo docB fibersB (Some 2))
             = Some (''Icon'' # [''Button'', ''Toolbar''])"
    using scenarioB_info by simp
  have rs: "recordedSource (fibersB 1)
        = Some \<lparr>fileName = ''src/Icon.tsx'', lineNumber = 7, columnNumber = None\<rparr>"
    by (simp add: recordedSource_def fibersB_def componentFiber_def)
  from identity_from_first_user_component [OF refl h]
  obtain el start k f rest where
      e2: "Some 2 = Some el"
      and st0: "start = (if getReactFiber (elems docB el) = None
                     then findFiber docB (parentElement (elems docB el)) (getReactFiber (elems docB el)) 0
                     else getReactFiber (elems docB el))"
      and u: "userHops fibersB start = (k, f) # rest"
      and nm: "getComponentDisplayName (fibersB f) = Some ''Icon''"
      and sf: "r_sourceFile (getReactInfo docB fibersB (Some 2))
              = map_option fileName (recordedSource (fibersB f))"
      and sl: "r_sourceLine (getReactInfo docB fibersB (Some 2))
              = numOrUndefined (map_option lineNumber (recordedSource (fibersB f)))"
      and pr: "r_props (getReactInfo docB fibersB (Some 2))
              = (if k < 5 then getSafeProps (fibersB f) else None)"
      and st: "r_componentStack (getReactInfo docB fibersB (Some 2))
             = Some (map (\<lambda>kf. \<lparr>s_name = the (getComponentDisplayName (fibersB (snd kf))),
                                 s_source = recordedSource (fibersB (snd kf))\<rparr>)
                       (take 10 (userHops fibersB start)))"
    by blast
  from e2 have el: "el = 2" by simp
  have s0: "start = Some 0"
    unfolding st0 el by (rule scenarioB_start)
  have ex: "\<exists>el k f rest.
           Some 2 = Some el
         \<and> userHops fibersB (Some 0) = (k, f) # rest
         \<and> getComponentDisplayName (fibersB f) = Some ''Icon''
         \<and> r_sourceFile (getReactInfo docB fibersB (Some 2))
              = map_option fileName (recordedSource (fibersB f))
         \<and> r_sourceLine (getReactInfo docB fibersB (Some 2))
              = numOrUndefined (map_option lineNumber (recordedSource (fibersB f)))
         \<and> r_props (getReactInfo docB fibersB (Some 2))
              = (if k < 5 then getSafeProps (fibersB f) else None)
         \<and> r_componentStack (getReactInfo docB fibersB (Some 2))
             = Some (map (\<lambda>kf. \<lparr>s_name = the (getComponentDisplayName (fibersB (snd kf))),
                                 s_source = recordedSource (fibersB (snd kf))\<rparr>)
                       (take 10 (userHops fibersB (Some 0))))"
    using e2 u nm sf sl pr st unfolding s0 by blast
  show ?thesis
    using h scenarioB_userHops rs scenarioB_info scenarioB_identity ex by blast
qed

section \<open>Properties of the ancestor walks and the selector\<close>

lemma fullDomPathLoop_None [simp]: "fullDomPathLoop d None parts = parts"
  by (simp add: fullDomPathLoop.simps)

lemma fullDomPathLoop_Some [simp]:
  "fullDomPathLoop d (Some c) parts =
     (if Some c \<noteq> body d \<and> length parts < 15
      then fullDomPathLoop d (parentElement (elems d c)) (domPathPart d c # parts)
      else parts)"
  by (simp add: fullDomPathLoop.simps [of d "Some c"])

lemma parentChainLoop_None [simp]: "parentChainLoop d None depth maxDepth chain = chain"
  by (simp add: parentChainLoop.simps)

lemma parentChainLoop_Some [simp]:
  "parentChainLoop d (Some c) depth maxDepth chain =
     (if Some c \<noteq> body d \<and> depth < maxDepth
      then parentChainLoop d (parentElement (elems d c)) (depth + 1) maxDepth
             (chain @ [parentEntryOf (elems d c)])
      else chain)"
  by (simp add: parentChainLoop.simps [of d "Some c"])

lemma ancestorsBelowBody_length: "length (ancestorsBelowBody d cur n) \<le> n"
  by (induction d cur n rule: ancestorsBelowBody.induct) (auto split: option.splits)

lemma ancestorsBelowBody_no_body: "c \<in> set (ancestorsBelowBody d cur n) \<Longrightarrow> Some c \<noteq> body d"
  by (induction d cur n rule: ancestorsBelowBody.induct) (auto split: option.splits if_splits)

lemma fullDomPathLoop_ancestors:
  "length parts \<le> 15 \<Longrightarrow>
   fullDomPathLoop d cur parts =
     rev (map (domPathPart d) (ancestorsBelowBody d cur (15 - length parts))) @ parts"
proof (induction d cur parts rule: fullDomPathLoop.induct)
  case (1 d current parts)
  show ?case
  proof (cases current)
    case None
    then show ?thesis by (cases "15 - length parts") simp_all
  next
    case (Some c)
    show ?thesis
    proof (cases "Some c \<noteq> body d \<and> length parts < 15")
      case True
      then obtain m where m: "15 - length parts = Suc m" "15 - length (domPathPart d c # parts) = m"
        by (cases "15 - length parts") auto
      from "1.IH" [OF Some True] True m Some show ?thesis by simp
    next
      case False
      then show ?thesis using Some "1.prems" by (cases "15 - length parts") auto
    qed
  qed
qed

lemma parentChainLoop_ancestors:
  "depth \<le> maxDepth \<Longrightarrow>
   parentChainLoop d cur depth maxDepth chain =
     chain @ map (\<lambda>c. parentEntryOf (elems d c)) (ancestorsBelowBody d cur (maxDepth - depth))"
proof (induction d cur depth maxDepth chain rule: parentChainLoop.induct)
  case (1 d current depth maxDepth chain)
  show ?case
  proof (cases current)
    case None
    then show ?thesis by (cases "maxDepth - depth") simp_all
  next
    case (Some c)
    show ?thesis
    proof (cases "Some c \<noteq> body d \<and> depth < maxDepth")
      case True
      then obtain m where m: "maxDepth - depth = Suc m" "maxDepth - (depth + 1) = m"
        by (cases "maxDepth - depth") auto
      from "1.IH" [OF Some True] True m Some show ?thesis by simp
    next
      case False
      then show ?thesis using Some "1.prems" by (cases "maxDepth - depth") auto
    qed
  qed
qed

text \<open>
  C6. For every node of every document the list of \<^verbatim>\<open>domPath\<close> segments (which
  \<^verbatim>\<open>getFullDomPath\<close> joins with \<^verbatim>\<open>" > "\<close>) has at most 15 entries and \<^verbatim>\<open>parentChain\<close> has at most
  8. The segments are the tokens of the first 15 nodes from the node upwards that come before
  the body, the chain entries those of the first 8 from its parent upwards; the body is never
  one of them.
\<close>

theorem ancestor_walks_bounded:
  "length (fullDomPathLoop d (Some node) []) \<le> 15
   \<and> fullDomPathLoop d (Some node) []
       = rev (map (domPathPart d) (ancestorsBelowBody d (Some node) 15))
   \<and> getFullDomPath d node = join '' > '' (fullDomPathLoop d (Some node) [])
   \<and> length (getParentChain d node 8) \<le> 8
   \<and> getParentChain d node 8
       = map (\<lambda>c. parentEntryOf (elems d c)) (ancestorsBelowBody d (parentElement (elems d node)) 8)
   \<and> (\<forall>c\<in>set (ancestorsBelowBody d (Some node) 15). Some c \<noteq> body d)
   \<and> (\<forall>c\<in>set (ancestorsBelowBody d (parentElement (elems d node)) 8). Some c \<noteq> body d)"
proof -
  have p: "fullDomPathLoop d (Some node) []
       = rev (map (domPathPart d) (ancestorsBelowBody d (Some node) 15))"
    using fullDomPathLoop_ancestors [of "[]" d "Some node"] by simp
  have q: "getParentChain d node 8
       = map (\<lambda>c. parentEntryOf (elems d c)) (ancestorsBelowBody d (parentElement (elems d node)) 8)"
    using parentChainLoop_ancestors [of 0 8 d "parentElement (elems d node)" "[]"]
    by (simp add: getParentChain_def)
  have "length (fullDomPathLoop d (Some node) []) \<le> 15"
    unfolding p using ancestorsBelowBody_length [of d "Some node" 15] by simp
  moreover have "length (getParentChain d node 8) \<le> 8"
    unfolding q using ancestorsBelowBody_length [of d "parentElement (elems d node)" 8] by simp
  ultimately show ?thesis
    using p q ancestorsBelowBody_no_body by (auto simp: getFullDomPath_def simp del: fullDomPathLoop_Some)
qed

lemma docC_path: "getFullDomPath docC 7 = ''div:nth-of-type(3) > span:nth-of-type(2)''"
  by (simp add: getFullDomPath_def docC_def plainElement_def domPathPart_def domPathBase_def
      nthOfType_def sameTagSiblings_def toLowerCase_def lowerChar_def upperLetters_def lowerLetters_def
      getAttribute_def testIdOf_def truthy_def classList_def Let_def show_int_def show_nat.simps
      digitChar_def)

lemma docC_ancestors:
  "ancestorsBelowBody docC (Some 7) 15 = [7, 4]
   \<and> ancestorsBelowBody docC (parentElement (elems docC 7)) 8 = [4]"
  by code_simp

theorem ancestor_walks_bounded_witness:
  "ancestorsBelowBody docC (Some 7) 15 = [7, 4]
   \<and> ancestorsBelowBody docC (parentElement (elems docC 7)) 8 = [4]
   \<and> getFullDomPath docC 7 = ''div:nth-of-type(3) > span:nth-of-type(2)''
   \<and> length (fullDomPathLoop docC (Some 7) []) \<le> 15
   \<and> length (getParentChain docC 7 8) \<le> 8
   \<and> getParentChain docC 7 8 = [parentEntryOf (elems docC 4)]
   \<and> Some 7 \<noteq> body docC \<and> Some 4 \<noteq> body docC"
  using ancestor_walks_bounded [of docC 7] docC_ancestors docC_path
  by (simp del: fullDomPathLoop_Some)







section \<open>Properties of the request and the assembled descriptor\<close>

lemma join_last: "\<exists>pre. join sep (xs @ [x]) = pre @ x"
proof (induction xs)
  case Nil
  show ?case by simp
next
  case (Cons y ys)
  then obtain pre where pre: "join sep (ys @ [x]) = pre @ x" by blast
  obtain z zs where z: "ys @ [x] = z # zs" by (cases "ys @ [x]") auto
  have "join sep ((y # ys) @ [x]) = y @ sep @ join sep (ys @ [x])"
    using z by simp
  then show ?case using pre by simp
qed

lemma domPathBase_id:
  assumes "element_id e \<noteq> []"
  shows "domPathBase e = toLowerCase (nodeName e) @ ''#'' @ element_id e"
  using assms by (auto simp: domPathBase_def element_id_def truthy_def Let_def split: option.splits)

lemma getFullDomPath_last:
  assumes "Some el \<noteq> body d"
  shows "\<exists>pre. getFullDomPath d el = pre @ domPathPart d el"
proof -
  have "fullDomPathLoop d (Some el) []
          = rev (map (domPathPart d) (ancestorsBelowBody d (Some el) 15))"
    using fullDomPathLoop_ancestors [of "[]" d "Some el"] by simp
  moreover have "ancestorsBelowBody d (Some el) 15
          = el # ancestorsBelowBody d (parentElement (elems d el)) 14"
    using assms ancestorsBelowBody.simps(2) [of d "Some el" 14] by simp
  ultimately have "fullDomPathLoop d (Some el) []
          = rev (map (domPathPart d) (ancestorsBelowBody d (parentElement (elems d el)) 14))
              @ [domPathPart d el]"
    by simp
  then show ?thesis
    unfolding getFullDomPath_def using join_last by metis
qed

lemma getElementInfo_identified:
  assumes "element_id (elems d el) \<noteq> []"
  shows "getElementInfo d transport el =
           (case getReactInfoFromBackground (''#'' @ element_id (elems d el))
                   (transport (''#'' @ element_id (elems d el))) of
              Pending \<Rightarrow> Some Pending
            | Rejected err \<Rightarrow> Some (Rejected err)
            | Resolved ri \<Rightarrow> Some (Resolved (assemble d el ri)))"
  using assms by (simp add: getElementInfo_def getUniqueSelector_def)

lemma answered_resolves:
  "\<exists>ri. getReactInfoFromBackground sel (CallbackWith outcome) = Resolved ri"
  by (simp add: getReactInfoFromBackground_def)

lemma selector_assemble: "selector (assemble d el ri) = getFullDomPath d el"
  by (simp add: assemble_def Let_def)

lemma scenarioA_request:
  "getUniqueSelector docA 2 = Some ''#save-btn''
   \<and> getReactInfoFromBackground ''#save-btn'' (transportA ''#save-btn'')
        = Resolved (emptyInfo\<lparr>hasReact := Some False\<rparr>)"
  by (simp add: getUniqueSelector_def element_id_def getAttribute_def docA_def plainElement_def
      getReactInfoFromBackground_def transportA_def handleGetReactInfo_def getReactInfo_def
      getReactFiber_def findFiber.simps Let_def)

lemma scenarioA_hasReact:
  "hasReact (getReactInfo docA (\<lambda>n. hostFiber [] None) (Some 2)) = Some False"
  by (simp add: docA_def plainElement_def getReactInfo_def getReactFiber_def findFiber.simps
      emptyInfo_def Let_def)

lemma scenarioA_fields:
  "getFullDomPath docA 2 = ''button#save-btn''
   \<and> m_tag (meta (assemble docA 2 ri)) = ''button''
   \<and> m_text (meta (assemble docA 2 ri)) = ''Save''"
  by (simp add: getFullDomPath_def domPathPart_def domPathBase_def nthOfType_def sameTagSiblings_def
      assemble_def textOf_def trim_def isSpace_def
      getAttribute_def docA_def plainElement_def truthy_def testIdOf_def classList_def
      toLowerCase_def lowerChar_def upperLetters_def lowerLetters_def Let_def)

text \<open>
  C1 (amended). For every node with a non-empty id, \<^verbatim>\<open>getUniqueSelector\<close>, the locator sent
  with the component-info request, is \<^verbatim>\<open>#id\<close> exactly; \<^verbatim>\<open>getElementInfo\<close> settles as the
  request made with it does, with a descriptor once the request is answered. The
  \<^verbatim>\<open>selector\<close> field of the descriptor is not that locator but the \<^verbatim>\<open>domPath\<close>, whose last
  segment for such a node is the tag, \<^verbatim>\<open>#id\<close> and the positional suffix if any. In particular
  \<^verbatim>\<open><button id="save-btn">Save</button>\<close> directly under the body, with no link to an
  instance tree, is requested as \<^verbatim>\<open>#save-btn\<close>, gets \<^verbatim>\<open>hasReact = false\<close>, and its descriptor has
  the selector \<^verbatim>\<open>button#save-btn\<close>, the tag \<^verbatim>\<open>button\<close> and the text \<^verbatim>\<open>Save\<close>.
\<close>

theorem selector_of_identified_node:
  "(\<forall>d transport el. element_id (elems d el) \<noteq> [] \<longrightarrow>
       getUniqueSelector d el = Some (''#'' @ element_id (elems d el))
     \<and> getElementInfo d transport el =
           (case getReactInfoFromBackground (''#'' @ element_id (elems d el))
                   (transport (''#'' @ element_id (elems d el))) of
              Pending \<Rightarrow> Some Pending
            | Rejected err \<Rightarrow> Some (Rejected err)
            | Resolved ri \<Rightarrow> Some (Resolved (assemble d el ri)))
     \<and> (\<forall>outcome. transport (''#'' @ element_id (elems d el)) = CallbackWith outcome \<longrightarrow>
          (\<exists>ri. getElementInfo d transport el = Some (Resolved (assemble d el ri))))
     \<and> (\<forall>ri. selector (assemble d el ri) = getFullDomPath d el)
     \<and> (Some el \<noteq> body d \<longrightarrow>
          (\<exists>pre. getFullDomPath d el =
             pre @ toLowerCase (nodeName (elems d el)) @ ''#'' @ element_id (elems d el)
               @ nthOfType d el)))
   \<and> getUniqueSelector docA 2 = Some ''#save-btn''
   \<and> hasReact (getReactInfo docA (\<lambda>n. hostFiber [] None) (Some 2)) = Some False
   \<and> getElementInfo docA transportA 2
        = Some (Resolved (assemble docA 2 (emptyInfo\<lparr>hasReact := Some False\<rparr>)))
   \<and> selector (assemble docA 2 (emptyInfo\<lparr>hasReact := Some False\<rparr>)) = ''button#save-btn''
   \<and> m_tag (meta (assemble docA 2 (emptyInfo\<lparr>hasReact := Some False\<rparr>))) = ''button''
   \<and> m_text (meta (assemble docA 2 (emptyInfo\<lparr>hasReact := Some False\<rparr>))) = ''Save''"
proof -
  have gen: "\<forall>d transport el. element_id (elems d el) \<noteq> [] \<longrightarrow>
       getUniqueSelector d el = Some (''#'' @ element_id (elems d el))
     \<and> getElementInfo d transport el =
           (case getReactInfoFromBackground (''#'' @ element_id (elems d el))
                   (transport (''#'' @ element_id (elems d el))) of
              Pending \<Rightarrow> Some Pending
            | Rejected err \<Rightarrow> Some (Rejected err)
            | Resolved ri \<Rightarrow> Some (Resolved (assemble d el ri)))
     \<and> (\<forall>outcome. transport (''#'' @ element_id (elems d el)) = CallbackWith outcome \<longrightarrow>
          (\<exists>ri. getElementInfo d transport el = Some (Resolved (assemble d el ri))))
     \<and> (\<forall>ri. selector (assemble d el ri) = getFullDomPath d el)
     \<and> (Some el \<noteq> body d \<longrightarrow>
          (\<exists>pre. getFullDomPath d el =
             pre @ toLowerCase (nodeName (elems d el)) @ ''#'' @ element_id (elems d el)
               @ nthOfType d el))"
  proof (intro allI impI conjI)
    fix d :: document and transport :: "string \<Rightarrow> sendMessageCall" and el :: nat
    assume i: "element_id (elems d el) \<noteq> []"
    show "getUniqueSelector d el = Some (''#'' @ element_id (elems d el))"
      using i by (simp add: getUniqueSelector_def)
    show g: "getElementInfo d transport el =
           (case getReactInfoFromBackground (''#'' @ element_id (elems d el))
                   (transport (''#'' @ element_id (elems d el))) of
              Pending \<Rightarrow> Some Pending
            | Rejected err \<Rightarrow> Some (Rejected err)
            | Resolved ri \<Rightarrow> Some (Resolved (assemble d el ri)))"
      using i by (rule getElementInfo_identified)
    show "\<And>outcome. transport (''#'' @ element_id (elems d el)) = CallbackWith outcome \<Longrightarrow>
          \<exists>ri. getElementInfo d transport el = Some (Resolved (assemble d el ri))"
    proof -
      fix outcome
      assume t: "transport (''#'' @ element_id (elems d el)) = CallbackWith outcome"
      obtain ri where "getReactInfoFromBackground (''#'' @ element_id (elems d el))
                         (CallbackWith outcome) = Resolved ri"
        using answered_resolves by blast
      then show "\<exists>ri. getElementInfo d transport el = Some (Resolved (assemble d el ri))"
        using g t by auto
    qed
    show "\<And>ri. selector (assemble d el ri) = getFullDomPath d el"
      by (rule selector_assemble)
    assume "Some el \<noteq> body d"
    then show "\<exists>pre. getFullDomPath d el =
             pre @ toLowerCase (nodeName (elems d el)) @ ''#'' @ element_id (elems d el)
               @ nthOfType d el"
      using getFullDomPath_last [of el d] domPathBase_id [OF i] by (simp add: domPathPart_def)
  qed
  have a: "getElementInfo docA transportA 2
        = Some (Resolved (assemble docA 2 (emptyInfo\<lparr>hasReact := Some False\<rparr>)))"
    using scenarioA_request by (simp add: getElementInfo_def)
  have s1: "getUniqueSelector docA 2 = Some ''#save-btn''"
    using scenarioA_request by simp
  have s2: "selector (assemble docA 2 (emptyInfo\<lparr>hasReact := Some False\<rparr>)) = ''button#save-btn''"
    using scenarioA_fields selector_assemble by simp
  have s3: "m_tag (meta (assemble docA 2 (emptyInfo\<lparr>hasReact := Some False\<rparr>))) = ''button''"
    and s4: "m_text (meta (assemble docA 2 (emptyInfo\<lparr>hasReact := Some False\<rparr>))) = ''Save''"
    using scenarioA_fields by simp_all
  show ?thesis
    using gen a s1 scenarioA_hasReact s2 s3 s4 by blast
qed

lemma docA_id: "element_id (elems docA 2) = ''save-btn'' \<and> Some 2 \<noteq> body docA"
  by (simp add: element_id_def getAttribute_def docA_def plainElement_def)

theorem selector_of_identified_node_witness:
  "element_id (elems docA 2) = ''save-btn'' \<and> Some 2 \<noteq> body docA
   \<and> getUniqueSelector docA 2 = Some (''#'' @ element_id (elems docA 2))
   \<and> (\<exists>outcome. transportA (''#'' @ element_id (elems docA 2)) = CallbackWith outcome)
   \<and> (\<exists>ri. getElementInfo docA transportA 2 = Some (Resolved (assemble docA 2 ri)))
   \<and> (\<exists>pre. getFullDomPath docA 2 =
         pre @ toLowerCase (nodeName (elems docA 2)) @ ''#'' @ element_id (elems docA 2)
           @ nthOfType docA 2)"
proof -
  have i: "element_id (elems docA 2) \<noteq> []" and b: "Some 2 \<noteq> body docA"
    using docA_id by simp_all
  have t: "\<exists>outcome. transportA (''#'' @ element_id (elems docA 2)) = CallbackWith outcome"
    by (simp add: transportA_def)
  from selector_of_identified_node
  have "element_id (elems docA 2) \<noteq> [] \<longrightarrow>
       getUniqueSelector docA 2 = Some (''#'' @ element_id (elems docA 2))
     \<and> (\<forall>outcome. transportA (''#'' @ element_id (elems docA 2)) = CallbackWith outcome \<longrightarrow>
          (\<exists>ri. getElementInfo docA transportA 2 = Some (Resolved (assemble docA 2 ri))))
     \<and> (Some 2 \<noteq> body docA \<longrightarrow>
          (\<exists>pre. getFullDomPath docA 2 =
             pre @ toLowerCase (nodeName (elems docA 2)) @ ''#'' @ element_id (elems docA 2)
               @ nthOfType docA 2))"
    by blast
  with i b t docA_id show ?thesis by blast
qed

text \<open>The descriptor of the button of scenario A does not have the selector \<^verbatim>\<open>#save-btn\<close>.\<close>

theorem descriptor_selector_counterexample:
  "element_id (elems docA 2) = ''save-btn''
   \<and> getElementInfo docA transportA 2
        = Some (Resolved (assemble docA 2 (emptyInfo\<lparr>hasReact := Some False\<rparr>)))
   \<and> selector (assemble docA 2 (emptyInfo\<lparr>hasReact := Some False\<rparr>)) = ''button#save-btn''
   \<and> selector (assemble docA 2 (emptyInfo\<lparr>hasReact := Some False\<rparr>)) \<noteq> ''#save-btn''"
proof -
  have a: "getElementInfo docA transportA 2
        = Some (Resolved (assemble docA 2 (emptyInfo\<lparr>hasReact := Some False\<rparr>)))"
    using scenarioA_request by (simp add: getElementInfo_def)
  have s: "selector (assemble docA 2 (emptyInfo\<lparr>hasReact := Some False\<rparr>)) = ''button#save-btn''"
    using scenarioA_fields selector_assemble by simp
  show ?thesis using a s docA_id by simp
qed











lemma foldl_sample:
  assumes "distinct (map fst attrs)" and "fst ` set attrs \<inter> fst ` set acc = {}"
  shows "foldl (\<lambda>attrs a.
              if \<not> startsWith (fst a) ''__react'' \<and> \<not> startsWith (fst a) ''data-element-agent''
              then AList.update (fst a) (take 200 (snd a)) attrs
              else attrs) acc attrs = acc @ sampleAttributes_spec attrs"
  using assms
proof (induction attrs arbitrary: acc)
  case Nil
  then show ?case by (simp add: sampleAttributes_spec_def)
next
  case (Cons a attrs)
  have fresh: "fst a \<notin> fst ` set acc" using Cons.prems(2) by auto
  have d: "distinct (map fst attrs)" and knot: "fst a \<notin> fst ` set attrs"
    using Cons.prems(1) by auto
  have i1: "fst ` set attrs \<inter> fst ` set acc = {}" using Cons.prems(2) by auto
  have i2: "fst ` set attrs \<inter> fst ` set (acc @ [(fst a, take 200 (snd a))]) = {}"
    using Cons.prems(2) knot by auto
  show ?case
    using Cons.IH [OF d i1] Cons.IH [OF d i2] update_fresh [OF fresh]
    by (simp add: sampleAttributes_spec_def)
qed

lemma getAllAttributes_sample:
  assumes "distinct (map fst (attributes e))"
  shows "getAllAttributes e = sampleAttributes_spec (attributes e)"
  using foldl_sample [OF assms, of "[]"] by (simp add: getAllAttributes_def)

lemma sample_values_bounded: "\<forall>a\<in>set (sampleAttributes_spec attrs). length (snd a) \<le> 200"
  by (auto simp: sampleAttributes_spec_def)

lemma allAttributes_absent_when_empty:
  "m_allAttributes (meta (assemble d el ri)) \<noteq> Some []
   \<and> m_computedStyles (meta (assemble d el ri)) \<noteq> Some []"
  by (simp add: assemble_def Let_def)

text \<open>
  C9. The sampler of the content script copies every attribute except those whose name
  begins with \<^verbatim>\<open>__react\<close> or \<^verbatim>\<open>data-element-agent\<close>, each value cut to 200 characters
  (\<open>getAllAttributes_sample\<close>), and the descriptor never holds an empty mapping. The copy of
  the sampler in the panel's capture script does not exclude the engine's own attributes: on
  an element with \<^verbatim>\<open>class="card"\<close> and \<^verbatim>\<open>data-element-agent-id="7"\<close> it returns both.
\<close>

theorem panel_sampler_keeps_instrumentation:
  "attributes markedElement = [(''class'', ''card''), (''data-element-agent-id'', ''7'')]
   \<and> sampleAttributes_spec (attributes markedElement) = [(''class'', ''card'')]
   \<and> getAllAttributes markedElement = [(''class'', ''card'')]
   \<and> panel_getAllAttributes markedElement = [(''class'', ''card''), (''data-element-agent-id'', ''7'')]"
  by (simp add: markedElement_def plainElement_def sampleAttributes_spec_def getAllAttributes_def
      panel_getAllAttributes_def startsWith_def)

text \<open>
  C10. In the descriptor of the content script and in the one of the panel's capture script
  the \<^verbatim>\<open>selector\<close> field and \<^verbatim>\<open>meta.domPath\<close> are the same string, the value of
  \<^verbatim>\<open>getFullDomPath\<close> on the captured node.
\<close>

theorem selector_is_domPath:
  "selector (assemble d el ri) = m_domPath (meta (assemble d el ri))
   \<and> selector (assemble d el ri) = getFullDomPath d el
   \<and> (\<forall>info. getElementInfo d transport el = Some (Resolved info) \<longrightarrow>
         selector info = m_domPath (meta info))
   \<and> (\<forall>info. captureElement d fs inspected = Some info \<longrightarrow>
         selector info = m_domPath (meta info) \<and> selector info = getFullDomPath d (the inspected))"
proof -
  have a: "selector (assemble d el ri) = m_domPath (meta (assemble d el ri))"
    and a': "\<And>ri. selector (assemble d el ri) = m_domPath (meta (assemble d el ri))"
    by (simp_all add: assemble_def Let_def)
  have b: "selector (assemble d el ri) = getFullDomPath d el"
    by (simp add: assemble_def Let_def)
  have c: "\<forall>info. getElementInfo d transport el = Some (Resolved info) \<longrightarrow>
         selector info = m_domPath (meta info)"
    using a' by (auto simp: getElementInfo_def split: option.splits promise.splits)
  have e: "\<forall>info. captureElement d fs inspected = Some info \<longrightarrow>
         selector info = m_domPath (meta info) \<and> selector info = getFullDomPath d (the inspected)"
    by (auto simp: captureElement_def Let_def split: option.splits)
  show ?thesis using a b c e by blast
qed

lemma captureA: "\<exists>info. captureElement docA (\<lambda>n. hostFiber [] None) (Some 2) = Some info"
  by (simp add: captureElement_def Let_def)

theorem selector_is_domPath_witness:
  "(\<exists>info. getElementInfo docA transportA 2 = Some (Resolved info)
        \<and> selector info = m_domPath (meta info) \<and> selector info = ''button#save-btn'')
   \<and> (\<exists>info. captureElement docA (\<lambda>n. hostFiber [] None) (Some 2) = Some info
        \<and> selector info = m_domPath (meta info) \<and> selector info = ''button#save-btn'')"
proof -
  have a: "getElementInfo docA transportA 2
        = Some (Resolved (assemble docA 2 (emptyInfo\<lparr>hasReact := Some False\<rparr>)))"
    using scenarioA_request by (simp add: getElementInfo_def)
  obtain info where i: "captureElement docA (\<lambda>n. hostFiber [] None) (Some 2) = Some info"
    using captureA by blast
  have p: "getFullDomPath docA 2 = ''button#save-btn''" using scenarioA_fields by simp
  show ?thesis
    using a i p
      selector_is_domPath [of docA 2 "emptyInfo\<lparr>hasReact := Some False\<rparr>" transportA
        "\<lambda>n. hostFiber [] None" "Some 2"]
    by auto
qed

end
